theory Spec2Isabelle
  imports Complex_Main
begin

unbundle bit_operations_syntax

section \<open>JavaScript strings and numbers as the colour code uses them\<close>

text \<open>
  A \<^typ>\<open>string\<close> is a JavaScript string whose UTF-16 code units all lie in
  U+0000..U+00FF; a \<^typ>\<open>char\<close> is one code unit. A number that is either an integer
  or \<^verbatim>\<open>NaN\<close> is an \<^typ>\<open>int option\<close>, with \<^term>\<open>None\<close> for \<^verbatim>\<open>NaN\<close>.
  Arithmetic that the source does in IEEE doubles is done over \<^typ>\<open>rat\<close>; where the
  double result differs from the exact one, the definition says so.
\<close>

definition isWhiteSpace :: "char \<Rightarrow> bool" where
  \<comment> \<open>WhiteSpace and LineTerminator code units below 256: TAB, LF, VT, FF, CR, SP, NBSP.\<close>
  "isWhiteSpace c = (of_char c \<in> {9, 10, 11, 12, 13, 32, 160 :: nat})"

definition lower_char :: "char \<Rightarrow> char" where
  \<comment> \<open>A-Z, and the Latin-1 capitals U+00C0..U+00DE without the multiplication sign.\<close>
  "lower_char c =
     (let n = of_char c :: nat
      in if (65 \<le> n \<and> n \<le> 90) \<or> (192 \<le> n \<and> n \<le> 222 \<and> n \<noteq> 215)
         then char_of (n + 32) else c)"

definition toLowerCase :: "string \<Rightarrow> string" where
  "toLowerCase s = map lower_char s"

definition trim :: "string \<Rightarrow> string" where
  "trim s = rev (dropWhile isWhiteSpace (rev (dropWhile isWhiteSpace s)))"

definition startsWith :: "string \<Rightarrow> string \<Rightarrow> bool" where
  "startsWith s p = (take (length p) s = p)"

definition slice :: "string \<Rightarrow> nat \<Rightarrow> string" where
  \<comment> \<open>\<^verbatim>\<open>s.slice(i)\<close> for a non-negative index\<close>
  "slice s i = drop i s"

definition substr :: "string \<Rightarrow> nat \<Rightarrow> nat \<Rightarrow> string" where
  \<comment> \<open>\<^verbatim>\<open>s.substr(start, len)\<close> for non-negative arguments\<close>
  "substr s start len = take len (drop start s)"

fun replace_first :: "string \<Rightarrow> char \<Rightarrow> string" where
  \<comment> \<open>\<^verbatim>\<open>s.replace(c, '')\<close>: the first occurrence of the one-character pattern is removed\<close>
  "replace_first [] c = []"
| "replace_first (x # xs) c = (if x = c then xs else x # replace_first xs c)"

definition padStart :: "string \<Rightarrow> nat \<Rightarrow> char \<Rightarrow> string" where
  "padStart s n c = replicate (n - length s) c @ s"

definition hexDigitValue :: "char \<Rightarrow> nat option" where
  "hexDigitValue c =
     (let n = of_char c :: nat
      in if 48 \<le> n \<and> n \<le> 57 then Some (n - 48)
         else if 97 \<le> n \<and> n \<le> 102 then Some (n - 87)
         else if 65 \<le> n \<and> n \<le> 70 then Some (n - 55)
         else None)"

definition isHexDigit :: "char \<Rightarrow> bool" where
  "isHexDigit c = (hexDigitValue c \<noteq> None)"

definition hexValue :: "string \<Rightarrow> nat" where
  \<comment> \<open>the value of a run of hexadecimal digits\<close>
  "hexValue z =
     foldl (\<lambda>a c. 16 * a + (case hexDigitValue c of None \<Rightarrow> 0 | Some d \<Rightarrow> d)) 0 z"

definition parseInt16 :: "string \<Rightarrow> int option" where
  \<comment> \<open>\<^verbatim>\<open>parseInt(str, 16)\<close>: leading white space, a sign, a \<^verbatim>\<open>0x\<close> prefix, then the
      longest run of hexadecimal digits; \<^verbatim>\<open>NaN\<close> when that run is empty. Exact below
      \<open>2 ^ 53\<close>, that is for up to 13 digits.\<close>
  "parseInt16 str =
     (let s0 = dropWhile isWhiteSpace str;
          sign = (if take 1 s0 = ''-'' then - 1 else 1 :: int);
          s1 = (if take 1 s0 = ''-'' \<or> take 1 s0 = ''+'' then drop 1 s0 else s0);
          s2 = (if take 2 s1 = ''0x'' \<or> take 2 s1 = ''0X'' then drop 2 s1 else s1);
          z = takeWhile isHexDigit s2
      in if z = [] then None else Some (sign * int (hexValue z)))"

definition hexChar :: "nat \<Rightarrow> char" where
  "hexChar d = ''0123456789abcdef'' ! d"

fun hexDigits :: "nat \<Rightarrow> string" where
  "hexDigits n = (if n < 16 then [hexChar n] else hexDigits (n div 16) @ [hexChar (n mod 16)])"

declare hexDigits.simps [simp del]

definition toString16 :: "int option \<Rightarrow> string" where
  \<comment> \<open>\<^verbatim>\<open>x.toString(16)\<close> for an integer or \<^verbatim>\<open>NaN\<close>\<close>
  "toString16 x =
     (case x of
        None \<Rightarrow> ''NaN''
      | Some n \<Rightarrow> if n < 0 then ''-'' @ hexDigits (nat (- n)) else hexDigits (nat n))"

definition Math_round :: "rat \<Rightarrow> int" where
  \<comment> \<open>nearest integer, a tie towards \<open>+\<infinity>\<close>\<close>
  "Math_round x = \<lfloor>x + 1 / 2\<rfloor>"

definition toInt32 :: "int option \<Rightarrow> int" where
  \<comment> \<open>the operand conversion of the bitwise operators: \<^verbatim>\<open>NaN\<close> becomes 0, an integer wraps
      to signed 32 bits\<close>
  "toInt32 x = (case x of None \<Rightarrow> 0 | Some n \<Rightarrow> (n + 2 ^ 31) mod 2 ^ 32 - 2 ^ 31)"

definition truthy :: "string option \<Rightarrow> bool" where
  \<comment> \<open>a property that is a non-empty string; \<^term>\<open>None\<close> is \<^verbatim>\<open>undefined\<close> or \<^verbatim>\<open>null\<close>\<close>
  "truthy v = (case v of None \<Rightarrow> False | Some s \<Rightarrow> s \<noteq> [])"

definition or_else :: "string option \<Rightarrow> string \<Rightarrow> string" where
  \<comment> \<open>\<^verbatim>\<open>v || d\<close>\<close>
  "or_else v d = (case v of None \<Rightarrow> d | Some s \<Rightarrow> if s \<noteq> [] then s else d)"

section \<open>ThemeEngine: data\<close>

text \<open>
  The \<^verbatim>\<open>colors\<close> object of an extracted theme maps role names to colour strings; it is
  kept as an association list in the key order of the object (the keys are distinct, as
  those of an object are), and \<^verbatim>\<open>colors.primary\<close> is \<open>map_of cs ''primary''\<close>. Of the properties of a theme object the code reads only
  \<^verbatim>\<open>colors\<close>, and a theme is taken to hold no other. The palette has the 14 roles of the
  source; the role \<^verbatim>\<open>text\<close> is the field \<open>text'\<close>.
\<close>

type_synonym colors = "(string \<times> string) list"

record theme =
  colors :: "colors option"

record palette =
  primary :: string
  primaryDark :: string
  primaryLight :: string
  secondary :: string
  background :: string
  text' :: string
  border :: string
  button :: string
  link :: string
  accent :: string
  userBg :: string
  botBg :: string
  headerBg :: string
  headerText :: string

section \<open>ThemeEngine: validation of the primary colour\<close>

definition genericColors :: "string list" where
  "genericColors =
     [''#ffffff'', ''#fff'', ''white'',
      ''#000000'', ''#000'', ''black'',
      ''#333333'', ''#333'',
      ''#666666'', ''#666'',
      ''#999999'', ''#999'',
      ''#cccccc'', ''#ccc'',
      ''#f0f0f0'', ''#f5f5f5'', ''#fafafa'',
      ''#007bff'', ''#0056b3'', ''#0d6efd'',
      ''#dc3545'', ''#28a745'', ''#ffc107'',
      ''#17a2b8'', ''#6c757d'', ''#343a40'',
      ''#667eea'', ''#764ba2'']"

definition luminance :: "int \<Rightarrow> int \<Rightarrow> int \<Rightarrow> rat" where
  "luminance r g b = (299 / 1000 * of_int r + 587 / 1000 * of_int g + 114 / 1000 * of_int b) / 255"

definition luminance_gt_09 :: "int \<Rightarrow> int \<Rightarrow> int \<Rightarrow> bool" where
  \<comment> \<open>\<^verbatim>\<open>luminance > 0.9\<close> as the doubles decide it. For channels between -15 and 255 (all
      that two characters can parse to) the double comparison is the exact one, except at
      two colours of exact luminance 0.9 whose double is 0.9000000000000001.\<close>
  "luminance_gt_09 r g b =
     (luminance r g b > 9 / 10 \<or> (r, g, b) \<in> {(196, 242, 253), (248, 226, 199)})"

definition luminance_lt_01 :: "int \<Rightarrow> int \<Rightarrow> int \<Rightarrow> bool" where
  \<comment> \<open>\<^verbatim>\<open>luminance < 0.1\<close> as the doubles decide it: the exact comparison, except at five
      channel triples of exact luminance 0.1 whose double is 0.09999999999999999.\<close>
  "luminance_lt_01 r g b =
     (luminance r g b < 1 / 10 \<or>
      (r, g, b) \<in> {(- 12, 48, 8), (3, 39, 15), (18, 30, 22), (74, 4, 9), (115, - 13, - 11)})"

definition isColorTooLight :: "string \<Rightarrow> bool" where
  "isColorTooLight color =
     (let hex = replace_first color CHR ''#''
      in if length hex \<noteq> 6 then False
         else case (parseInt16 (substr hex 0 2), parseInt16 (substr hex 2 2),
                    parseInt16 (substr hex 4 2)) of
                (Some r, Some g, Some b) \<Rightarrow> luminance_gt_09 r g b
              | _ \<Rightarrow> False)"

definition isColorTooDark :: "string \<Rightarrow> bool" where
  "isColorTooDark color =
     (let hex = replace_first color CHR ''#''
      in if length hex \<noteq> 6 then False
         else case (parseInt16 (substr hex 0 2), parseInt16 (substr hex 2 2),
                    parseInt16 (substr hex 4 2)) of
                (Some r, Some g, Some b) \<Rightarrow> luminance_lt_01 r g b
              | _ \<Rightarrow> False)"

definition saturation :: "int \<Rightarrow> int \<Rightarrow> int \<Rightarrow> rat" where
  "saturation r g b =
     (let mx = max r (max g b); mn = min r (min g b)
      in if mx = 0 then 0 else of_int (mx - mn) / of_int mx)"

definition hasGoodSaturation :: "string \<Rightarrow> bool" where
  \<comment> \<open>a \<^verbatim>\<open>NaN\<close> channel makes \<^verbatim>\<open>Math.max\<close>, the quotient and the comparison \<^verbatim>\<open>NaN\<close> and
      false; the quotient of two integers below 256 compares with 0.15 as the exact one does\<close>
  "hasGoodSaturation color =
     (let hex = replace_first color CHR ''#''
      in if length hex \<noteq> 6 then False
         else case (parseInt16 (substr hex 0 2), parseInt16 (substr hex 2 2),
                    parseInt16 (substr hex 4 2)) of
                (Some r, Some g, Some b) \<Rightarrow> saturation r g b > 15 / 100
              | _ \<Rightarrow> False)"

definition isWebsiteSpecificColor :: "string \<Rightarrow> bool" where
  "isWebsiteSpecificColor color =
     (if color = [] then False
      else let normalizedColor = trim (toLowerCase color)
           in if normalizedColor \<in> set genericColors then False
              else if isColorTooLight normalizedColor \<or> isColorTooDark normalizedColor then False
              else hasGoodSaturation normalizedColor)"

section \<open>ThemeEngine: colour arithmetic\<close>

definition isLightColor :: "string \<Rightarrow> bool" where
  \<comment> \<open>a \<^verbatim>\<open>NaN\<close> channel makes the brightness \<^verbatim>\<open>NaN\<close> and the comparison false\<close>
  "isLightColor color =
     (if color = [] \<or> color = ''transparent'' then True
      else if startsWith color ''#'' then
        (let hex = slice color 1
         in case (parseInt16 (substr hex 0 2), parseInt16 (substr hex 2 2),
                  parseInt16 (substr hex 4 2)) of
              (Some r, Some g, Some b) \<Rightarrow>
                (let brightness = (of_int (r * 299 + g * 587 + b * 114) :: rat) / 1000
                 in brightness > 155)
            | _ \<Rightarrow> False)
      else True)"

definition isDarkColor :: "string \<Rightarrow> bool" where
  "isDarkColor color = (\<not> isLightColor color)"

definition isColorTooSimilar :: "string \<Rightarrow> string \<Rightarrow> bool" where
  \<comment> \<open>the distance is the square root of an integer, so it is below 100 exactly when the
      sum of squares is below \<open>100\<^sup>2\<close>; a \<^verbatim>\<open>NaN\<close> channel makes the comparison false\<close>
  "isColorTooSimilar color1 color2 =
     (if color1 = [] \<or> color2 = [] \<or> \<not> startsWith color1 ''#'' \<or> \<not> startsWith color2 ''#''
      then False
      else let hex1 = slice color1 1; hex2 = slice color2 1
           in case (parseInt16 (substr hex1 0 2), parseInt16 (substr hex1 2 2),
                    parseInt16 (substr hex1 4 2),
                    parseInt16 (substr hex2 0 2), parseInt16 (substr hex2 2 2),
                    parseInt16 (substr hex2 4 2)) of
                (Some r1, Some g1, Some b1, Some r2, Some g2, Some b2) \<Rightarrow>
                  (r2 - r1) ^ 2 + (g2 - g1) ^ 2 + (b2 - b1) ^ 2 < 100 ^ 2
              | _ \<Rightarrow> False)"

definition getContrastingTextColor :: "string \<Rightarrow> string" where
  "getContrastingTextColor backgroundColor =
     (if isLightColor backgroundColor then ''#ffffff'' else ''#2d3748'')"

definition darkenColor :: "string \<Rightarrow> rat \<Rightarrow> string" where
  \<comment> \<open>exact arithmetic; it is the double arithmetic at the percents 20, 60 and 75 that the
      palette derivation passes\<close>
  "darkenColor color percent =
     (if color = [] \<or> \<not> startsWith color ''#'' then color
      else let hex = slice color 1;
               r = parseInt16 (substr hex 0 2);
               g = parseInt16 (substr hex 2 2);
               b = parseInt16 (substr hex 4 2);
               factor = (100 - percent) / 100;
               newR = map_option (\<lambda>r. Math_round (of_int r * factor)) r;
               newG = map_option (\<lambda>g. Math_round (of_int g * factor)) g;
               newB = map_option (\<lambda>b. Math_round (of_int b * factor)) b
           in ''#'' @ padStart (toString16 newR) 2 CHR ''0''
                   @ padStart (toString16 newG) 2 CHR ''0''
                   @ padStart (toString16 newB) 2 CHR ''0'')"

definition lightenColor :: "string \<Rightarrow> rat \<Rightarrow> string" where
  "lightenColor color percent =
     (if color = [] \<or> \<not> startsWith color ''#'' then color
      else let hex = slice color 1;
               r = parseInt16 (substr hex 0 2);
               g = parseInt16 (substr hex 2 2);
               b = parseInt16 (substr hex 4 2);
               factor = percent / 100;
               newR = map_option (\<lambda>r. Math_round (of_int r + of_int (255 - r) * factor)) r;
               newG = map_option (\<lambda>g. Math_round (of_int g + of_int (255 - g) * factor)) g;
               newB = map_option (\<lambda>b. Math_round (of_int b + of_int (255 - b) * factor)) b
           in ''#'' @ padStart (toString16 newR) 2 CHR ''0''
                   @ padStart (toString16 newG) 2 CHR ''0''
                   @ padStart (toString16 newB) 2 CHR ''0'')"

definition clamp255 :: "int \<Rightarrow> int" where
  \<comment> \<open>\<^verbatim>\<open>(R < 255 ? (R < 1 ? 0 : R) : 255)\<close>\<close>
  "clamp255 R = (if R < 255 then (if R < 1 then 0 else R) else 255)"

definition adjustColorBrightness :: "string \<Rightarrow> rat \<Rightarrow> string" where
  \<comment> \<open>\<^verbatim>\<open>Math.round(2.55 * percent)\<close> in exact arithmetic: -38 at -15 and -20 at -8, as
      the doubles give\<close>
  "adjustColorBrightness hex percent =
     (if hex = [] \<or> \<not> startsWith hex ''#'' then hex
      else let hex' = replace_first hex CHR ''#'';
               num = toInt32 (parseInt16 hex');
               amt = Math_round (255 / 100 * percent);
               R = drop_bit 16 num + amt;
               G = (drop_bit 8 num AND 255) + amt;
               B = (num AND 255) + amt
           in ''#'' @ slice (toString16 (Some (16777216 + clamp255 R * 65536
                                              + clamp255 G * 256 + clamp255 B))) 1)"

section \<open>ThemeEngine: the palette\<close>

definition getDefaultThemeColors :: palette where
  "getDefaultThemeColors =
     \<lparr>primary = ''#667eea'',
      primaryDark = ''#764ba2'',
      primaryLight = ''#7c8bf0'',
      secondary = ''#f093fb'',
      background = ''#f8f9fa'',
      text' = ''#2d3748'',
      border = ''#e2e8f0'',
      button = ''#667eea'',
      link = ''#667eea'',
      accent = ''#764ba2'',
      userBg = ''linear-gradient(135deg, #667eea 0%, #764ba2 100%)'',
      botBg = ''#ffffff'',
      headerBg = ''#667eea'',
      headerText = ''#ffffff''\<rparr>"

definition generateBotBackgroundColor :: "colors \<Rightarrow> string" where
  \<comment> \<open>\<open>or_else v []\<close> is the string of a truthy \<open>v\<close>\<close>
  "generateBotBackgroundColor cs =
     (if truthy (map_of cs ''secondary'') \<and> map_of cs ''secondary'' \<noteq> map_of cs ''primary''
      then lightenColor (or_else (map_of cs ''secondary'') []) 60
      else if truthy (map_of cs ''primary'')
      then lightenColor (or_else (map_of cs ''primary'') []) 75
      else ''#f1f3f5'')"

definition ensureAccessibleColors :: "palette \<Rightarrow> palette" where
  "ensureAccessibleColors colors0 =
     (let colors1 =
            (if isLightColor (background colors0) \<and> isLightColor (text' colors0)
             then colors0\<lparr>text' := ''#2d3748''\<rparr>
             else if isDarkColor (background colors0) \<and> isDarkColor (text' colors0)
             then colors0\<lparr>text' := ''#f7fafc''\<rparr>
             else colors0);
          colors2 =
            (if isLightColor (botBg colors1) \<and> isLightColor (text' colors1)
             then colors1\<lparr>botBg := ''#f8f9fa''\<rparr>
             else if isDarkColor (botBg colors1) \<and> isDarkColor (text' colors1)
             then colors1\<lparr>botBg := ''#e2e8f0''\<rparr>
             else colors1)
      in if isColorTooSimilar (primary colors2) (background colors2)
         then colors2\<lparr>primary :=
                (if isLightColor (background colors2) then ''#4299e1'' else ''#63b3ed'')\<rparr>
         else colors2)"

definition getThemeColors :: "string \<Rightarrow> theme option \<Rightarrow> palette" where
  \<comment> \<open>reads \<^verbatim>\<open>this.options.themeStyle\<close> and \<^verbatim>\<open>this.websiteTheme\<close>\<close>
  "getThemeColors themeStyle websiteTheme =
     (case (if themeStyle = ''website'' then websiteTheme else None) of
        None \<Rightarrow> getDefaultThemeColors
      | Some t \<Rightarrow>
          (case colors t of
             None \<Rightarrow> getDefaultThemeColors
           | Some cs \<Rightarrow>
               (let hasValidPrimary =
                      (truthy (map_of cs ''primary'') \<and>
                       isWebsiteSpecificColor (or_else (map_of cs ''primary'') []))
                in if \<not> hasValidPrimary then getDefaultThemeColors
                   else
                     (let p = or_else (map_of cs ''primary'') [];
                          bg = or_else (map_of cs ''background'') ''#ffffff''
                      in ensureAccessibleColors
                           \<lparr>primary = p,
                            primaryDark = darkenColor p 20,
                            primaryLight = lightenColor p 20,
                            secondary = or_else (map_of cs ''secondary'')
                                          (adjustColorBrightness p (- 15)),
                            background = bg,
                            text' = or_else (map_of cs ''text'') (getContrastingTextColor bg),
                            border = or_else (map_of cs ''border'')
                                       (adjustColorBrightness bg (- 8)),
                            button = or_else (map_of cs ''button'') p,
                            link = or_else (map_of cs ''link'') p,
                            accent = or_else (map_of cs ''accent'') p,
                            userBg = p,
                            botBg = generateBotBackgroundColor cs,
                            headerBg = p,
                            headerText = getContrastingTextColor p\<rparr>))))"

section \<open>ConfigSync: data\<close>

text \<open>
  A remote configuration, typed as the data model has it. An absent (\<^verbatim>\<open>undefined\<close> or
  \<^verbatim>\<open>null\<close>) property is \<^term>\<open>None\<close>. The \<^verbatim>\<open>customizations\<close> object is an association list
  like \<^verbatim>\<open>colors\<close>. The field \<^verbatim>\<open>id\<close> of a website is \<open>id'\<close>.
\<close>

record website =
  id' :: string
  url :: "string option"
  displayName :: "string option"
  fileName :: "string option"

record integration =
  themeChoice :: "string option"
  customizations :: "(string \<times> string) list option"

record config =
  selectedWebsite :: "website option"
  availableWebsites :: "website list option"
  integration :: "integration option"
  themeData :: "theme option"

record options =
  position :: string
  title :: string
  placeholder :: string
  themeStyle :: string

datatype messages_html =
  Greeting \<comment> \<open>the markup of \<^verbatim>\<open>createChatWidget\<close>\<close>
| WelcomeSelected \<comment> \<open>\<^verbatim>\<open>clearChat\<close> with a current file id\<close>
| WelcomeUnselected \<comment> \<open>\<^verbatim>\<open>clearChat\<close> without one\<close>
| NoSitesMessage \<comment> \<open>\<^verbatim>\<open>showNoSitesMessage\<close>\<close>
| ApiKeyErrorMessage \<comment> \<open>\<^verbatim>\<open>showApiKeyError\<close>\<close>

datatype error = TypeError

text \<open>
  The object \<^verbatim>\<open>this\<close>, the parts of the widget's DOM that the modelled methods write, and
  the host's side of the timers, listeners and requests:
  \<^item> \<open>widget_className\<close>, \<open>title_text\<close>, \<open>input_disabled\<close>, \<open>input_placeholder\<close>,
    \<open>send_disabled\<close>, \<open>messages\<close>, \<open>website_link_text\<close> and \<open>website_link_href\<close> are the
    attributes of the elements of \<^verbatim>\<open>this.widget\<close>; \<open>widget_attached\<close> says whether the widget
    is in the document; \<open>styles\<close> is the palette in the style sheet of \<^verbatim>\<open>createStyles\<close>;
  \<^item> \<open>host_intervals\<close> are the ids of the running interval timers; \<open>visibility_listener\<close> and
    \<open>focus_listener\<close> say whether the listeners of \<^verbatim>\<open>setupConfigRefresh\<close> are registered;
  \<^item> \<open>validation_pending\<close>, \<open>load_pending\<close> and \<open>pending_polls\<close> are the requests in flight:
    the one of \<^verbatim>\<open>validateApiKey\<close>, the one of \<^verbatim>\<open>loadSdkConfiguration\<close> and those of
    \<^verbatim>\<open>refreshConfiguration\<close>.
\<close>

record chatbot =
  sdkConfig :: "config option"
  options :: options
  websiteTheme :: "theme option"
  currentFileId :: "string option"
  chatHistory :: "(string \<times> string) list"
  configRefreshInterval :: "nat option"
  widget_className :: string
  title_text :: string
  input_disabled :: bool
  input_placeholder :: string
  send_disabled :: bool
  messages :: messages_html
  website_link_text :: "string option"
  website_link_href :: string
  widget_attached :: bool
  styles :: palette
  host_intervals :: "nat list"
  visibility_listener :: bool
  focus_listener :: bool
  validation_pending :: bool
  load_pending :: bool
  pending_polls :: nat

text \<open>The answer to a request: the request fails, or a body \<^verbatim>\<open>{success, data}\<close> arrives.\<close>

datatype fetch_result = NetworkError | Body bool "config option"

section \<open>ConfigSync: serialization\<close>

definition escape_char :: "char \<Rightarrow> string" where
  \<comment> \<open>the escapes of \<^verbatim>\<open>JSON.stringify\<close> for a code unit below 256\<close>
  "escape_char c =
     (let n = of_char c :: nat
      in if n = 34 then [CHR 0x5C, CHR 0x22]
         else if n = 92 then [CHR 0x5C, CHR 0x5C]
         else if n = 8 then [CHR 0x5C, CHR ''b'']
         else if n = 12 then [CHR 0x5C, CHR ''f'']
         else if n = 10 then [CHR 0x5C, CHR ''n'']
         else if n = 13 then [CHR 0x5C, CHR ''r'']
         else if n = 9 then [CHR 0x5C, CHR ''t'']
         else if n < 32 then [CHR 0x5C, CHR ''u'', CHR ''0'', CHR ''0'',
                              hexChar (n div 16), hexChar (n mod 16)]
         else [c])"

definition quote_json :: "string \<Rightarrow> string" where
  "quote_json s = [CHR 0x22] @ concat (map escape_char s) @ [CHR 0x22]"

fun join :: "string \<Rightarrow> string list \<Rightarrow> string" where
  "join sep [] = []"
| "join sep [x] = x"
| "join sep (x # y # ys) = x @ sep @ join sep (y # ys)"

definition stringify_object :: "(string \<times> string) list \<Rightarrow> string" where
  "stringify_object kvs =
     ''{'' @ join '','' (map (\<lambda>(k, v). quote_json k @ '':'' @ quote_json v) kvs) @ ''}''"

definition JSON_stringify :: "theme \<Rightarrow> string" where
  \<comment> \<open>\<^verbatim>\<open>JSON.stringify\<close> of a theme object; a \<^verbatim>\<open>colors\<close> property that is \<^term>\<open>None\<close>
      is \<^verbatim>\<open>undefined\<close> here and is left out\<close>
  "JSON_stringify t =
     (case colors t of
        None \<Rightarrow> ''{}''
      | Some cs \<Rightarrow> ''{'' @ quote_json ''colors'' @ '':'' @ stringify_object cs @ ''}'')"

section \<open>ConfigSync: change detection and application\<close>

definition hasConfigurationChanged :: "chatbot \<Rightarrow> config \<Rightarrow> bool" where
  "hasConfigurationChanged this newConfig =
     (case sdkConfig this of
        None \<Rightarrow> True
      | Some old \<Rightarrow>
          (let oldWebsiteId = map_option id' (selectedWebsite old);
               newWebsiteId = map_option id' (selectedWebsite newConfig)
           in if oldWebsiteId \<noteq> newWebsiteId then True
              else
                (let oldThemeChoice = Option.bind (integration old) themeChoice;
                     newThemeChoice = Option.bind (integration newConfig) themeChoice
                 in if oldThemeChoice \<noteq> newThemeChoice then True
                    else if newThemeChoice = Some ''website'' then
                      (let oldThemeData = JSON_stringify
                             (case themeData old of None \<Rightarrow> \<lparr>colors = None\<rparr> | Some t \<Rightarrow> t);
                           newThemeData = JSON_stringify
                             (case themeData newConfig of None \<Rightarrow> \<lparr>colors = None\<rparr> | Some t \<Rightarrow> t)
                       in if oldThemeData \<noteq> newThemeData then True else False)
                    else False)))"

definition createStyles :: "chatbot \<Rightarrow> chatbot" where
  "createStyles this = this\<lparr>styles := getThemeColors (themeStyle (options this)) (websiteTheme this)\<rparr>"

definition enableInput :: "chatbot \<Rightarrow> chatbot" where
  "enableInput this =
     this\<lparr>input_disabled := False, send_disabled := False,
          input_placeholder :=
            (if placeholder (options this) \<noteq> [] then placeholder (options this)
             else ''Ask me anything about this website...'')\<rparr>"

definition clearChat :: "chatbot \<Rightarrow> chatbot" where
  "clearChat this =
     this\<lparr>messages := (if truthy (currentFileId this) then WelcomeSelected
                        else WelcomeUnselected),
          chatHistory := []\<rparr>"

definition updateChatHeader :: "string option \<Rightarrow> string option \<Rightarrow> chatbot \<Rightarrow> chatbot" where
  "updateChatHeader siteName siteUrl this =
     this\<lparr>website_link_text := (if truthy siteUrl then siteUrl else siteName),
          website_link_href := or_else siteUrl ''#''\<rparr>"

definition showNoSitesMessage :: "chatbot \<Rightarrow> chatbot" where
  "showNoSitesMessage this =
     this\<lparr>messages := NoSitesMessage, input_disabled := True,
          input_placeholder := ''No websites available for chat'', send_disabled := True\<rparr>"

definition showApiKeyError :: "chatbot \<Rightarrow> error \<times> chatbot + chatbot" where
  \<comment> \<open>the widget has no element \<^verbatim>\<open>#chatbot-site-selector\<close>, so the last statement reads
      \<^verbatim>\<open>style\<close> of \<^verbatim>\<open>null\<close> and throws, after the message and the input are set\<close>
  "showApiKeyError this =
     Inl (TypeError,
          this\<lparr>messages := ApiKeyErrorMessage, input_disabled := True, send_disabled := True,
               input_placeholder := ''Invalid API key - chatbot disabled''\<rparr>)"

definition select_website :: "website \<Rightarrow> chatbot \<Rightarrow> chatbot" where
  \<comment> \<open>the four statements that both branches of the website selection run\<close>
  "select_website w this =
     updateChatHeader (if truthy (displayName w) then displayName w else fileName w) (url w)
       (clearChat (enableInput (this\<lparr>currentFileId := Some (id' w)\<rparr>)))"

definition apply_customizations :: "(string \<times> string) list \<Rightarrow> chatbot \<Rightarrow> chatbot" where
  \<comment> \<open>the body of \<^verbatim>\<open>if (newConfig.integration.customizations)\<close> in
      \<^verbatim>\<open>applyNewConfiguration\<close>\<close>
  "apply_customizations c this0 =
     (let this1 =
            (if truthy (map_of c ''position'') \<and>
                or_else (map_of c ''position'') [] \<noteq> position (options this0)
             then this0\<lparr>options := (options this0)\<lparr>position := or_else (map_of c ''position'') []\<rparr>,
                        widget_className :=
                          ''chatbot-widget '' @ or_else (map_of c ''position'') []\<rparr>
             else this0);
          this2 =
            (if truthy (map_of c ''title'') \<and>
                or_else (map_of c ''title'') [] \<noteq> title (options this1)
             then this1\<lparr>options := (options this1)\<lparr>title := or_else (map_of c ''title'') []\<rparr>,
                        title_text := or_else (map_of c ''title'') []\<rparr>
             else this1)
      in if truthy (map_of c ''placeholder'') \<and>
            or_else (map_of c ''placeholder'') [] \<noteq> placeholder (options this2)
         then this2\<lparr>options :=
                      (options this2)\<lparr>placeholder := or_else (map_of c ''placeholder'') []\<rparr>,
                    input_placeholder :=
                      (if \<not> input_disabled this2 then or_else (map_of c ''placeholder'') []
                       else input_placeholder this2)\<rparr>
         else this2)"

definition applyNewConfiguration :: "config \<Rightarrow> chatbot \<Rightarrow> error \<times> chatbot + chatbot" where
  \<comment> \<open>\<^term>\<open>Inl\<close> is a thrown error, with the state as the statements before it left it\<close>
  "applyNewConfiguration newConfig this0 =
     (let this1 = this0\<lparr>sdkConfig := Some newConfig\<rparr>
      in case integration newConfig of
           None \<Rightarrow> Inl (TypeError, this1)
         | Some integ \<Rightarrow>
             (let this2 = (case customizations integ of
                             None \<Rightarrow> this1
                           | Some c \<Rightarrow> apply_customizations c this1);
                  this3 =
                    (if themeChoice integ = Some ''website'' \<and> themeData newConfig \<noteq> None
                     then this2\<lparr>options := (options this2)\<lparr>themeStyle := ''website''\<rparr>,
                                websiteTheme := themeData newConfig\<rparr>
                     else this2\<lparr>options := (options this2)\<lparr>themeStyle := ''default''\<rparr>,
                                websiteTheme := None\<rparr>)
              in case selectedWebsite newConfig of
                   Some w \<Rightarrow> Inr (createStyles (select_website w this3))
                 | None \<Rightarrow>
                     (case availableWebsites newConfig of
                        None \<Rightarrow> Inl (TypeError, this3)
                      | Some [] \<Rightarrow> Inr (createStyles (showNoSitesMessage this3))
                      | Some (firstSite # _) \<Rightarrow>
                          Inr (createStyles (select_website firstSite this3)))))"

definition refreshConfiguration_resume :: "fetch_result \<Rightarrow> chatbot \<Rightarrow> chatbot" where
  \<comment> \<open>\<^verbatim>\<open>refreshConfiguration\<close> from the answer of its request on; every error is caught and
      only logged\<close>
  "refreshConfiguration_resume res this =
     (case res of
        NetworkError \<Rightarrow> this
      | Body success data \<Rightarrow>
          (case (if success then data else None) of
             None \<Rightarrow> this
           | Some newConfig \<Rightarrow>
               if hasConfigurationChanged this newConfig
               then (case applyNewConfiguration newConfig this of
                       Inl (e, this') \<Rightarrow> this'
                     | Inr this' \<Rightarrow> this')
               else this))"

section \<open>ConfigSync: start-up and teardown\<close>

definition load_customizations :: "(string \<times> string) list \<Rightarrow> chatbot \<Rightarrow> chatbot" where
  \<comment> \<open>the three settings that \<^verbatim>\<open>loadSdkConfiguration\<close> takes from the customizations\<close>
  "load_customizations c this0 =
     (let this1 = (if truthy (map_of c ''position'')
                   then this0\<lparr>options :=
                          (options this0)\<lparr>position := or_else (map_of c ''position'') []\<rparr>\<rparr>
                   else this0);
          this2 = (if truthy (map_of c ''title'')
                   then this1\<lparr>options :=
                          (options this1)\<lparr>title := or_else (map_of c ''title'') []\<rparr>\<rparr>
                   else this1)
      in if truthy (map_of c ''placeholder'')
         then this2\<lparr>options :=
                (options this2)\<lparr>placeholder := or_else (map_of c ''placeholder'') []\<rparr>\<rparr>
         else this2)"

definition loadSdkConfiguration_resume :: "fetch_result \<Rightarrow> chatbot \<Rightarrow> chatbot" where
  \<comment> \<open>\<^verbatim>\<open>loadSdkConfiguration\<close> from the answer of its request on; the \<^verbatim>\<open>catch\<close> block
      shows the no-sites message\<close>
  "loadSdkConfiguration_resume res this0 =
     (case res of
        NetworkError \<Rightarrow> showNoSitesMessage this0
      | Body success data \<Rightarrow>
          (case (if success then data else None) of
             None \<Rightarrow> showNoSitesMessage this0
           | Some cfg \<Rightarrow>
               (let this1 = this0\<lparr>sdkConfig := Some cfg\<rparr>
                in case integration cfg of
                     None \<Rightarrow> showNoSitesMessage this1
                   | Some integ \<Rightarrow>
                       (let this2 = (case customizations integ of
                                       None \<Rightarrow> this1
                                     | Some c \<Rightarrow> load_customizations c this1);
                            this3 =
                              (if themeChoice integ = Some ''website'' \<and> themeData cfg \<noteq> None
                               then this2\<lparr>options :=
                                            (options this2)\<lparr>themeStyle := ''website''\<rparr>,
                                          websiteTheme := themeData cfg\<rparr>
                               else this2\<lparr>options :=
                                            (options this2)\<lparr>themeStyle := ''default''\<rparr>\<rparr>)
                        in case selectedWebsite cfg of
                             Some w \<Rightarrow> createStyles (select_website w this3)
                           | None \<Rightarrow>
                               (case availableWebsites cfg of
                                  None \<Rightarrow> showNoSitesMessage this3
                                | Some [] \<Rightarrow> createStyles (showNoSitesMessage this3)
                                | Some (firstSite # _) \<Rightarrow>
                                    createStyles (select_website firstSite this3))))))"

definition default_options :: options where
  "default_options =
     \<lparr>position = ''bottom-right'', title = ''ChatFlow AI Assistant'',
      placeholder = ''Ask me anything about this website...'', themeStyle = ''auto''\<rparr>"

definition setupConfigRefresh :: "chatbot \<Rightarrow> chatbot" where
  \<comment> \<open>\<^verbatim>\<open>setInterval\<close> answers an id that no running timer has\<close>
  "setupConfigRefresh this =
     (let i = Suc (fold max (host_intervals this) 0)
      in this\<lparr>configRefreshInterval := Some i, host_intervals := i # host_intervals this,
              visibility_listener := True, focus_listener := True\<rparr>)"

definition constructor :: "options \<Rightarrow> chatbot" where
  \<comment> \<open>the state when \<^verbatim>\<open>new ChatBot(apiKey, options)\<close> returns, for the merged options:
      \<^verbatim>\<open>init()\<close> has run up to its first \<^verbatim>\<open>await\<close> (styles, widget, events, the validation
      request sent), then \<^verbatim>\<open>setupConfigRefresh()\<close> has run\<close>
  "constructor opts =
     setupConfigRefresh
       \<lparr>sdkConfig = None, options = opts, websiteTheme = None, currentFileId = None,
        chatHistory = [], configRefreshInterval = None,
        widget_className = ''chatbot-widget '' @ position opts,
        title_text = title opts,
        input_disabled = True, input_placeholder = placeholder opts, send_disabled = True,
        messages = Greeting, website_link_text = Some ''No website selected'',
        website_link_href = ''#'', widget_attached = True,
        styles = getThemeColors (themeStyle opts) None,
        host_intervals = [], visibility_listener = False, focus_listener = False,
        validation_pending = True, load_pending = False, pending_polls = 0\<rparr>"

definition init_resume :: "bool \<Rightarrow> chatbot \<Rightarrow> error \<times> chatbot + chatbot" where
  \<comment> \<open>\<^verbatim>\<open>init\<close> from the answer of \<^verbatim>\<open>validateApiKey\<close> on, up to the request of
      \<^verbatim>\<open>loadSdkConfiguration\<close>\<close>
  "init_resume isValidKey this =
     (if isValidKey then Inr (this\<lparr>load_pending := True\<rparr>) else showApiKeyError this)"

definition destroy :: "chatbot \<Rightarrow> chatbot" where
  "destroy this0 =
     (let this1 = (case configRefreshInterval this0 of
                     None \<Rightarrow> this0
                   | Some i \<Rightarrow> if i \<noteq> 0
                              then this0\<lparr>host_intervals := removeAll i (host_intervals this0)\<rparr>
                              else this0)
      in this1\<lparr>widget_attached := False\<rparr>)"

section \<open>ConfigSync: the events of the host\<close>

datatype event =
  ValidationDone bool \<comment> \<open>the request of \<^verbatim>\<open>validateApiKey\<close> is answered\<close>
| LoadDone fetch_result \<comment> \<open>the request of \<^verbatim>\<open>loadSdkConfiguration\<close> is answered\<close>
| Tick nat \<comment> \<open>the interval timer with this id is due\<close>
| VisibilityChange bool \<comment> \<open>\<^verbatim>\<open>visibilitychange\<close>, with \<^verbatim>\<open>document.hidden\<close>\<close>
| Focus \<comment> \<open>the window gains focus\<close>
| ManualRefresh \<comment> \<open>\<^verbatim>\<open>window.ChatFlowRefresh()\<close>\<close>
| PollDone fetch_result \<comment> \<open>a request of \<^verbatim>\<open>refreshConfiguration\<close> is answered\<close>
| Destroy \<comment> \<open>\<^verbatim>\<open>destroy()\<close>\<close>

definition refreshConfiguration_start :: "chatbot \<Rightarrow> chatbot" where
  \<comment> \<open>\<^verbatim>\<open>refreshConfiguration\<close> up to its request\<close>
  "refreshConfiguration_start this = this\<lparr>pending_polls := Suc (pending_polls this)\<rparr>"

definition state_of :: "error \<times> chatbot + chatbot \<Rightarrow> chatbot" where
  \<comment> \<open>the state that a call leaves, whether it returned or threw into a handler that only
      logs, or into none\<close>
  "state_of r = (case r of Inl (e, this) \<Rightarrow> this | Inr this \<Rightarrow> this)"

fun step :: "event \<Rightarrow> chatbot \<Rightarrow> chatbot" where
  "step (ValidationDone isValidKey) this =
     (if validation_pending this
      then state_of (init_resume isValidKey (this\<lparr>validation_pending := False\<rparr>))
      else this)"
| "step (LoadDone res) this =
     (if load_pending this
      then loadSdkConfiguration_resume res (this\<lparr>load_pending := False\<rparr>)
      else this)"
| "step (Tick i) this =
     (if i \<in> set (host_intervals this) then refreshConfiguration_start this else this)"
| "step (VisibilityChange hidden) this =
     (if visibility_listener this \<and> \<not> hidden then refreshConfiguration_start this else this)"
| "step Focus this =
     (if focus_listener this then refreshConfiguration_start this else this)"
| "step ManualRefresh this = refreshConfiguration_start this"
| "step (PollDone res) this =
     (if 0 < pending_polls this
      then refreshConfiguration_resume res (this\<lparr>pending_polls := pending_polls this - 1\<rparr>)
      else this)"
| "step Destroy this = destroy this"

definition run :: "event list \<Rightarrow> chatbot \<Rightarrow> chatbot" where
  "run evs this = fold step evs this"

section \<open>Well-formed colours, as the data model has them\<close>

text \<open>
  A colour of the data model is \<^verbatim>\<open>#rrggbb\<close>: a hash and six hexadecimal digits of either
  case. \<open>rgb_of_hex\<close> reads its three channels and is \<^term>\<open>None\<close> on every other string.
  The operations above do not use these definitions; the properties below are stated
  with them.
\<close>

definition hexPair :: "char \<Rightarrow> char \<Rightarrow> int option" where
  "hexPair hi lo =
     (case (hexDigitValue hi, hexDigitValue lo) of
        (Some x, Some y) \<Rightarrow> Some (int (16 * x + y))
      | _ \<Rightarrow> None)"

fun rgb_of_hex :: "string \<Rightarrow> (int \<times> int \<times> int) option" where
  "rgb_of_hex [h, r1, r0, g1, g0, b1, b0] =
     (if h = CHR ''#'' then
        (case (hexPair r1 r0, hexPair g1 g0, hexPair b1 b0) of
           (Some r, Some g, Some b) \<Rightarrow> Some (r, g, b)
         | _ \<Rightarrow> None)
      else None)"
| "rgb_of_hex _ = None"

definition channels_in_range :: "string \<Rightarrow> bool" where
  "channels_in_range c =
     (case rgb_of_hex c of
        None \<Rightarrow> False
      | Some (r, g, b) \<Rightarrow> 0 \<le> r \<and> r \<le> 255 \<and> 0 \<le> g \<and> g \<le> 255 \<and> 0 \<le> b \<and> b \<le> 255)"

definition wellFormedColors :: "colors \<Rightarrow> bool" where
  \<comment> \<open>every colour that the \<^verbatim>\<open>colors\<close> object holds is well-formed\<close>
  "wellFormedColors cs = list_all (\<lambda>(k, v). rgb_of_hex v \<noteq> None) cs"

definition rejected_primary :: "string option \<Rightarrow> bool" where
  \<comment> \<open>the rejection rule for a primary colour: absent, on the deny-list, too light, too
      dark, or nearly grey\<close>
  "rejected_primary v =
     (case v of
        None \<Rightarrow> True
      | Some c \<Rightarrow>
          c \<in> set genericColors \<or>
          (case rgb_of_hex c of
             None \<Rightarrow> False
           | Some (r, g, b) \<Rightarrow>
               luminance r g b > 9 / 10 \<or> luminance r g b < 1 / 10 \<or>
               saturation r g b \<le> 15 / 100))"

definition clamp_channel :: "int \<Rightarrow> int" where
  \<comment> \<open>a value clamped to the range of a channel: below 0 it is 0, above 255 it is 255\<close>
  "clamp_channel x = max 0 (min 255 x)"

definition palette_in_range :: "palette \<Rightarrow> bool" where
  "palette_in_range p =
     (channels_in_range (primary p) \<and> channels_in_range (primaryDark p) \<and>
      channels_in_range (primaryLight p) \<and> channels_in_range (secondary p) \<and>
      channels_in_range (background p) \<and> channels_in_range (text' p) \<and>
      channels_in_range (border p) \<and> channels_in_range (button p) \<and>
      channels_in_range (link p) \<and> channels_in_range (accent p) \<and>
      channels_in_range (userBg p) \<and> channels_in_range (botBg p) \<and>
      channels_in_range (headerBg p) \<and> channels_in_range (headerText p))"

section \<open>Notions of the properties of the configuration sync\<close>

definition selectedWebsiteId :: "config \<Rightarrow> string option" where
  \<comment> \<open>\<^verbatim>\<open>cfg.selectedWebsite.id\<close>, absent when there is no selected website\<close>
  "selectedWebsiteId cfg = map_option id' (selectedWebsite cfg)"

definition themeChoiceOf :: "config \<Rightarrow> string option" where
  \<comment> \<open>\<^verbatim>\<open>cfg.integration.themeChoice\<close>, absent when there is no integration\<close>
  "themeChoiceOf cfg = Option.bind (integration cfg) themeChoice"

definition serializedThemeData :: "config \<Rightarrow> string" where
  \<comment> \<open>the serialized theme data, an absent one counting as the empty object\<close>
  "serializedThemeData cfg =
     JSON_stringify (case themeData cfg of None \<Rightarrow> \<lparr>colors = None\<rparr> | Some t \<Rightarrow> t)"

definition carries_config :: "event \<Rightarrow> bool" where
  \<comment> \<open>the event is the answer to a poll with a successful body that holds a configuration\<close>
  "carries_config ev =
     (case ev of
        PollDone (Body success (Some cfg)) \<Rightarrow> success
      | _ \<Rightarrow> False)"

definition host :: "chatbot \<Rightarrow> nat option \<times> nat list \<times> bool \<times> bool" where
  \<comment> \<open>the timer and the listeners: the stored timer id, the running timers, and the two
      listener flags\<close>
  "host this =
     (configRefreshInterval this, host_intervals this, visibility_listener this,
      focus_listener this)"

definition invalid_key_state :: "chatbot \<Rightarrow> bool" where
  \<comment> \<open>the terminal state of an invalid key: the message, the disabled input, no baseline,
      and no start-up request in flight\<close>
  "invalid_key_state this =
     (input_disabled this \<and> send_disabled this \<and> messages this = ApiKeyErrorMessage \<and>
      sdkConfig this = None \<and> \<not> validation_pending this \<and> \<not> load_pending this)"

section \<open>Properties of the colour arithmetic\<close>

subsection \<open>Reading well-formed colours\<close>

lemma hexDigit_facts:
  "hexDigitValue a = Some x \<Longrightarrow>
     \<not> isWhiteSpace a \<and> a \<noteq> CHR ''-'' \<and> a \<noteq> CHR ''+'' \<and> a \<noteq> CHR ''x'' \<and> a \<noteq> CHR ''X'' \<and>
     a \<noteq> CHR ''#'' \<and> x < 16 \<and> isHexDigit a"
  by (auto simp: hexDigitValue_def isWhiteSpace_def isHexDigit_def Let_def split: if_splits)

lemma hexPair_SomeD:
  "hexPair a b = Some v \<Longrightarrow>
     \<exists>x y. hexDigitValue a = Some x \<and> hexDigitValue b = Some y \<and> v = int (16 * x + y)"
  by (auto simp: hexPair_def split: option.splits)

lemma parseInt16_pair: "hexPair a b = Some v \<Longrightarrow> parseInt16 [a, b] = Some v"
proof -
  assume "hexPair a b = Some v"
  then obtain x y where
    xy: "hexDigitValue a = Some x" "hexDigitValue b = Some y" "v = int (16 * x + y)"
    using hexPair_SomeD by blast
  note fa = hexDigit_facts [OF xy(1)] and fb = hexDigit_facts [OF xy(2)]
  show ?thesis
    using fa fb xy by (simp add: parseInt16_def hexValue_def Let_def)
qed

lemma hexPair_range: "hexPair a b = Some v \<Longrightarrow> 0 \<le> v \<and> v \<le> 255"
proof -
  assume "hexPair a b = Some v"
  then obtain x y where
    xy: "hexDigitValue a = Some x" "hexDigitValue b = Some y" "v = int (16 * x + y)"
    using hexPair_SomeD by blast
  have "x < 16" "y < 16"
    using hexDigit_facts xy by blast+
  then show ?thesis
    using xy(3) by simp
qed

lemma rgb_of_hex_SomeD:
  "rgb_of_hex c = Some (r, g, b) \<Longrightarrow>
     \<exists>r1 r0 g1 g0 b1 b0. c = [CHR ''#'', r1, r0, g1, g0, b1, b0] \<and>
        hexPair r1 r0 = Some r \<and> hexPair g1 g0 = Some g \<and> hexPair b1 b0 = Some b"
  by (cases c rule: rgb_of_hex.cases) (auto split: if_splits option.splits)

lemma hexDigitValue_lower:
  "hexDigitValue c = Some v \<Longrightarrow> hexDigitValue (lower_char c) = Some v"
  by (auto simp: hexDigitValue_def lower_char_def Let_def split: if_splits)

lemma hexPair_lower:
  "hexPair a b = Some v \<Longrightarrow> hexPair (lower_char a) (lower_char b) = Some v"
  by (auto simp: hexPair_def hexDigitValue_lower split: option.splits)

lemma lower_hash: "lower_char CHR ''#'' = CHR ''#''"
  by (simp add: lower_char_def)

lemma hexPair_not_ws: "hexPair a b = Some v \<Longrightarrow> \<not> isWhiteSpace a \<and> \<not> isWhiteSpace b"
  using hexPair_SomeD hexDigit_facts by blast

lemma normalized_hex:
  assumes "rgb_of_hex c = Some (r, g, b)"
  shows "rgb_of_hex (trim (toLowerCase c)) = Some (r, g, b)"
proof -
  from rgb_of_hex_SomeD [OF assms] obtain r1 r0 g1 g0 b1 b0 where
    c: "c = [CHR ''#'', r1, r0, g1, g0, b1, b0]" and
    h: "hexPair r1 r0 = Some r" "hexPair g1 g0 = Some g" "hexPair b1 b0 = Some b"
    by blast
  have ws: "\<not> isWhiteSpace (lower_char b0)" "\<not> isWhiteSpace CHR ''#''"
    using hexPair_not_ws [OF hexPair_lower [OF h(3)]] by (simp_all add: isWhiteSpace_def)
  have "trim (toLowerCase c) =
        [CHR ''#'', lower_char r1, lower_char r0, lower_char g1, lower_char g0,
         lower_char b1, lower_char b0]"
    using ws by (simp add: c trim_def toLowerCase_def lower_hash)
  then show ?thesis
    using h by (simp add: hexPair_lower)
qed

lemma rgb_readers:
  assumes "rgb_of_hex c = Some (r, g, b)"
  shows "c \<noteq> []" "c \<noteq> ''transparent''" "startsWith c ''#''"
    "length (replace_first c CHR ''#'') = 6"
    "parseInt16 (substr (replace_first c CHR ''#'') 0 2) = Some r"
    "parseInt16 (substr (replace_first c CHR ''#'') 2 2) = Some g"
    "parseInt16 (substr (replace_first c CHR ''#'') 4 2) = Some b"
    "parseInt16 (substr (slice c 1) 0 2) = Some r"
    "parseInt16 (substr (slice c 1) 2 2) = Some g"
    "parseInt16 (substr (slice c 1) 4 2) = Some b"
proof -
  from rgb_of_hex_SomeD [OF assms] obtain r1 r0 g1 g0 b1 b0 where
    c: "c = [CHR ''#'', r1, r0, g1, g0, b1, b0]" and
    h: "hexPair r1 r0 = Some r" "hexPair g1 g0 = Some g" "hexPair b1 b0 = Some b"
    by blast
  note p = h [THEN parseInt16_pair]
  show "c \<noteq> []" "c \<noteq> ''transparent''" "startsWith c ''#''"
    "length (replace_first c CHR ''#'') = 6"
    by (simp_all add: c startsWith_def)
  show "parseInt16 (substr (replace_first c CHR ''#'') 0 2) = Some r"
    "parseInt16 (substr (replace_first c CHR ''#'') 2 2) = Some g"
    "parseInt16 (substr (replace_first c CHR ''#'') 4 2) = Some b"
    "parseInt16 (substr (slice c 1) 0 2) = Some r"
    "parseInt16 (substr (slice c 1) 2 2) = Some g"
    "parseInt16 (substr (slice c 1) 4 2) = Some b"
    using p by (simp_all add: c substr_def slice_def)
qed

lemma validators_wf:
  assumes "rgb_of_hex c = Some (r, g, b)"
  shows "isColorTooLight c = luminance_gt_09 r g b"
    "isColorTooDark c = luminance_lt_01 r g b"
    "hasGoodSaturation c = (saturation r g b > 15 / 100)"
    "isLightColor c = ((of_int (r * 299 + g * 587 + b * 114) :: rat) / 1000 > 155)"
  using rgb_readers [OF assms]
  by (simp_all add: isColorTooLight_def isColorTooDark_def hasGoodSaturation_def
        isLightColor_def Let_def)

subsection \<open>Validation of the primary colour\<close>

lemma genericColors_normalized:
  "list_all (\<lambda>c. c \<noteq> [] \<and> trim (toLowerCase c) = c) genericColors"
  by code_simp

lemma generic_normal: "c \<in> set genericColors \<Longrightarrow> c \<noteq> [] \<and> trim (toLowerCase c) = c"
  using genericColors_normalized unfolding list_all_iff by blast

lemma isWebsiteSpecificColor_rejected:
  assumes "rejected_primary (Some c)"
  shows "\<not> isWebsiteSpecificColor c"
proof (cases "c \<in> set genericColors")
  case True
  then show ?thesis
    using generic_normal [OF True] by (simp add: isWebsiteSpecificColor_def)
next
  case False
  with assms obtain r g b where rgb: "rgb_of_hex c = Some (r, g, b)" and
    bad: "luminance r g b > 9 / 10 \<or> luminance r g b < 1 / 10 \<or> saturation r g b \<le> 15 / 100"
    by (auto simp: rejected_primary_def split: option.splits)
  note v = validators_wf [OF normalized_hex [OF rgb]]
  have "isColorTooLight (trim (toLowerCase c)) \<or> isColorTooDark (trim (toLowerCase c)) \<or>
        \<not> hasGoodSaturation (trim (toLowerCase c))"
    unfolding v luminance_gt_09_def luminance_lt_01_def using bad by linarith
  then show ?thesis
    by (auto simp: isWebsiteSpecificColor_def Let_def)
qed

text \<open>
  C1. Whatever the theme style, an extracted theme that is absent, or has no \<^verbatim>\<open>colors\<close>,
  or whose primary colour is absent, on the deny-list, of luminance above 0.9 or below 0.1,
  or of saturation at most 0.15, gives exactly the default palette. The operation is a
  total function: it has no failing branch.
\<close>

theorem getThemeColors_fallback:
  assumes "case extracted of
             None \<Rightarrow> True
           | Some t \<Rightarrow> (case colors t of
                          None \<Rightarrow> True
                        | Some cs \<Rightarrow> rejected_primary (map_of cs ''primary''))"
  shows "getThemeColors style extracted = getDefaultThemeColors"
proof (cases extracted)
  case None
  then show ?thesis
    by (simp add: getThemeColors_def)
next
  case (Some t)
  show ?thesis
  proof (cases "colors t")
    case None
    then show ?thesis
      using Some by (simp add: getThemeColors_def)
  next
    case (Some cs)
    with assms \<open>extracted = Some t\<close> have rej: "rejected_primary (map_of cs ''primary'')"
      by simp
    have "\<not> (truthy (map_of cs ''primary'') \<and>
             isWebsiteSpecificColor (or_else (map_of cs ''primary'') []))"
    proof (cases "map_of cs ''primary''")
      case None
      then show ?thesis
        by (simp add: truthy_def)
    next
      case (Some c)
      then show ?thesis
        using isWebsiteSpecificColor_rejected [of c] rej by (auto simp: truthy_def or_else_def)
    qed
    then show ?thesis
      using Some \<open>extracted = Some t\<close> by (simp add: getThemeColors_def Let_def)
  qed
qed

theorem getThemeColors_fallback_witness:
  "rejected_primary (Some ''#fefefe'') \<and> rejected_primary (Some ''#0d6efd'') \<and>
   rejected_primary (Some ''#808890'') \<and>
   getThemeColors ''website'' (Some \<lparr>colors = Some [(''primary'', ''#fefefe'')]\<rparr>)
     = getDefaultThemeColors"
proof -
  have r: "rejected_primary (Some ''#fefefe'')" "rejected_primary (Some ''#0d6efd'')"
    "rejected_primary (Some ''#808890'')"
    by (simp_all add: rejected_primary_def genericColors_def hexPair_def hexDigitValue_def
          luminance_def saturation_def)
  have "getThemeColors ''website'' (Some \<lparr>colors = Some [(''primary'', ''#fefefe'')]\<rparr>)
        = getDefaultThemeColors"
    using r(1) by (intro getThemeColors_fallback) simp
  with r show ?thesis
    by simp
qed

subsection \<open>The accessibility pass\<close>

lemma isLightColor_constants:
  "\<not> isLightColor ''#2d3748''" "isLightColor ''#f7fafc''" "isLightColor ''#f8f9fa''"
  "isLightColor ''#e2e8f0''"
  by code_simp+

text \<open>
  C8. The accessibility pass is idempotent: a second application changes nothing, for every
  palette.
\<close>

theorem ensureAccessibleColors_idempotent:
  "ensureAccessibleColors (ensureAccessibleColors p) = ensureAccessibleColors p"
  by (cases "isLightColor (background p)"; cases "isLightColor (text' p)";
      cases "isLightColor (botBg p)"; cases "isColorTooSimilar (primary p) (background p)";
      cases "isColorTooSimilar ''#4299e1'' (background p)";
      cases "isColorTooSimilar ''#63b3ed'' (background p)";
      simp add: ensureAccessibleColors_def Let_def isDarkColor_def isLightColor_constants)

theorem ensureAccessibleColors_idempotent_witness:
  "ensureAccessibleColors (ensureAccessibleColors getDefaultThemeColors) =
   ensureAccessibleColors getDefaultThemeColors"
  using ensureAccessibleColors_idempotent [of getDefaultThemeColors] by simp

lemma ensureAccessibleColors_text_background:
  "isLightColor (text' (ensureAccessibleColors p)) \<noteq>
   isLightColor (background (ensureAccessibleColors p))"
  by (simp add: ensureAccessibleColors_def Let_def isDarkColor_def isLightColor_constants)

text \<open>
  C3. After the accessibility pass the pair text/botBg can still be light on light. On a
  dark background with light text and a light bot background, the pass replaces the bot
  background by \<^verbatim>\<open>#f8f9fa\<close>, which is light again, and leaves the text light. (The pair
  text/background always ends in different classes: \<open>ensureAccessibleColors_text_background\<close>.)
\<close>

theorem ensureAccessibleColors_botBg_light_on_light:
  "text' (ensureAccessibleColors
            (getDefaultThemeColors\<lparr>background := ''#000000'', text' := ''#ffffff'',
                                   botBg := ''#ffffff''\<rparr>)) = ''#ffffff'' \<and>
   botBg (ensureAccessibleColors
            (getDefaultThemeColors\<lparr>background := ''#000000'', text' := ''#ffffff'',
                                   botBg := ''#ffffff''\<rparr>)) = ''#f8f9fa'' \<and>
   isLightColor ''#ffffff'' \<and> isLightColor ''#f8f9fa''"
  by code_simp

subsection \<open>Contrasting text\<close>

lemma getContrastingTextColor_hex:
  assumes "rgb_of_hex c = Some (r, g, b)"
  shows "getContrastingTextColor c =
         (if (of_int (r * 299 + g * 587 + b * 114) :: rat) / 1000 > 155 then ''#ffffff''
          else ''#2d3748'')"
  by (simp add: getContrastingTextColor_def validators_wf(4) [OF assms])

text \<open>
  C4. On the white background, whose brightness 255 is above 155, the operation answers
  white text; on the black background it answers the dark text \<^verbatim>\<open>#2d3748\<close>: the two
  answers are the other way round from a contrasting choice.
\<close>

theorem getContrastingTextColor_white_on_white:
  "isLightColor ''#ffffff'' \<and> getContrastingTextColor ''#ffffff'' = ''#ffffff'' \<and>
   isDarkColor ''#000000'' \<and> getContrastingTextColor ''#000000'' = ''#2d3748''"
  by code_simp

subsection \<open>Channel ranges of the derived colours\<close>

lemma hexChar_values: "list_all (\<lambda>d. hexDigitValue (hexChar d) = Some d) [0..<16]"
  by code_simp

lemma hexDigitValue_hexChar: "d < 16 \<Longrightarrow> hexDigitValue (hexChar d) = Some d"
  using hexChar_values unfolding list_all_iff by simp

lemma hexPair_hexChar:
  assumes "m < 256"
  shows "hexPair (hexChar (m div 16)) (hexChar (m mod 16)) = Some (int m)"
proof -
  have "m div 16 < 16" "m mod 16 < 16" using assms by auto
  then show ?thesis
    by (simp add: hexPair_def hexDigitValue_hexChar)
qed

lemma hexDigits_small: "d < 16 \<Longrightarrow> hexDigits d = [hexChar d]"
  by (simp add: hexDigits.simps)

lemma hexDigits_step: "0 < q \<Longrightarrow> d < 16 \<Longrightarrow> hexDigits (16 * q + d) = hexDigits q @ [hexChar d]"
  by (subst hexDigits.simps) simp

lemma hexChar_0: "hexChar 0 = CHR ''0''" by (simp add: hexChar_def)

lemma padStart_byte:
  assumes "0 \<le> n" "n \<le> 255"
  shows "padStart (toString16 (Some n)) 2 CHR ''0'' = [hexChar (nat n div 16), hexChar (nat n mod 16)]"
proof (cases "nat n < 16")
  case True
  then show ?thesis using assms
    by (simp add: toString16_def hexDigits_small padStart_def hexChar_0)
next
  case False
  define q where "q = nat n div 16"
  define d where "d = nat n mod 16"
  have n: "nat n = 16 * q + d" by (simp add: q_def d_def)
  have q: "0 < q" "q < 16" and d: "d < 16" using False assms by (auto simp: q_def d_def)
  have "hexDigits (nat n) = [hexChar q, hexChar d]"
    unfolding n using q d by (simp add: hexDigits_step hexDigits_small)
  then show ?thesis using assms
    by (simp add: toString16_def padStart_def q_def d_def)
qed

lemma rgb_of_hex_bytes:
  assumes "0 \<le> r" "r \<le> 255" "0 \<le> g" "g \<le> 255" "0 \<le> b" "b \<le> 255"
  shows "rgb_of_hex (''#'' @ padStart (toString16 (Some r)) 2 CHR ''0''
                          @ padStart (toString16 (Some g)) 2 CHR ''0''
                          @ padStart (toString16 (Some b)) 2 CHR ''0'') = Some (r, g, b)"
proof -
  have "nat r < 256" "nat g < 256" "nat b < 256" using assms by auto
  note h = this [THEN hexPair_hexChar]
  show ?thesis using assms h
    by (simp add: padStart_byte)
qed

lemma Math_round_range: "0 \<le> x \<Longrightarrow> x \<le> 255 \<Longrightarrow> 0 \<le> Math_round x \<and> Math_round x \<le> 255"
  unfolding Math_round_def by (simp add: le_floor_iff floor_le_iff)

lemma darken_range:
  assumes "0 \<le> percent" "percent \<le> 100" "0 \<le> r" "r \<le> 255"
  shows "0 \<le> Math_round (of_int r * ((100 - percent) / 100)) \<and> Math_round (of_int r * ((100 - percent) / 100)) \<le> 255"
proof (rule Math_round_range)
  have f: "0 \<le> (100 - percent) / 100" "(100 - percent) / 100 \<le> 1" using assms by auto
  have r: "(0::rat) \<le> of_int r" "(of_int r :: rat) \<le> 255" using assms by auto
  show "0 \<le> of_int r * ((100 - percent) / 100)" using f r by (intro mult_nonneg_nonneg)
  have "of_int r * ((100 - percent) / 100) \<le> of_int r * 1" using f r by (intro mult_left_mono)
  then show "of_int r * ((100 - percent) / 100) \<le> 255" using r by simp
qed

lemma lighten_range:
  assumes "0 \<le> percent" "percent \<le> 100" "0 \<le> r" "r \<le> 255"
  shows "0 \<le> Math_round (of_int r + of_int (255 - r) * (percent / 100)) \<and> Math_round (of_int r + of_int (255 - r) * (percent / 100)) \<le> 255"
proof (rule Math_round_range)
  have f: "0 \<le> percent / 100" "percent / 100 \<le> 1" using assms by auto
  have r: "(0::rat) \<le> of_int r" "(0::rat) \<le> of_int (255 - r)" using assms by auto
  have "0 \<le> of_int (255 - r) * (percent / 100)" using f r by (intro mult_nonneg_nonneg)
  then show "0 \<le> of_int r + of_int (255 - r) * (percent / 100)" using r by linarith
  have "of_int (255 - r) * (percent / 100) \<le> of_int (255 - r) * 1" using f r by (intro mult_left_mono)
  then show "of_int r + of_int (255 - r) * (percent / 100) \<le> 255" by simp
qed

lemma channels_in_range_iff: "channels_in_range c = (rgb_of_hex c \<noteq> None)"
proof (cases "rgb_of_hex c")
  case None
  then show ?thesis
    by (simp add: channels_in_range_def)
next
  case (Some t)
  obtain r g b where t: "t = (r, g, b)"
    by (cases t) auto
  from rgb_of_hex_SomeD [OF Some [unfolded t]] hexPair_range
  have "0 \<le> r \<and> r \<le> 255 \<and> 0 \<le> g \<and> g \<le> 255 \<and> 0 \<le> b \<and> b \<le> 255"
    by blast
  then show ?thesis
    by (simp add: channels_in_range_def Some t)
qed

lemma rgb_of_hex_range:
  "rgb_of_hex c = Some (r, g, b) \<Longrightarrow>
     0 \<le> r \<and> r \<le> 255 \<and> 0 \<le> g \<and> g \<le> 255 \<and> 0 \<le> b \<and> b \<le> 255"
  using rgb_of_hex_SomeD hexPair_range by blast

lemma darkenColor_channels:
  assumes "rgb_of_hex c = Some (r, g, b)" "0 \<le> percent" "percent \<le> 100"
  shows "rgb_of_hex (darkenColor c percent) =
         Some (Math_round (of_int r * ((100 - percent) / 100)),
               Math_round (of_int g * ((100 - percent) / 100)),
               Math_round (of_int b * ((100 - percent) / 100)))"
proof -
  note rd = rgb_readers [OF assms(1)] and rg = rgb_of_hex_range [OF assms(1)]
  note d = darken_range [OF assms(2,3)]
  define R where "R = Math_round (of_int r * ((100 - percent) / 100))"
  define G where "G = Math_round (of_int g * ((100 - percent) / 100))"
  define B where "B = Math_round (of_int b * ((100 - percent) / 100))"
  have eq: "darkenColor c percent =
        ''#'' @ padStart (toString16 (Some R)) 2 CHR ''0''
              @ padStart (toString16 (Some G)) 2 CHR ''0''
              @ padStart (toString16 (Some B)) 2 CHR ''0''"
    using rd by (simp add: darkenColor_def Let_def R_def G_def B_def)
  have "rgb_of_hex (darkenColor c percent) = Some (R, G, B)"
    unfolding eq using rg d [of r] d [of g] d [of b]
    by (intro rgb_of_hex_bytes) (simp_all add: R_def G_def B_def)
  then show ?thesis
    by (simp only: R_def G_def B_def)
qed

lemma darkenColor_in_range:
  assumes "channels_in_range c" "0 \<le> percent" "percent \<le> 100"
  shows "channels_in_range (darkenColor c percent)"
proof -
  from assms(1) obtain r g b where rgb: "rgb_of_hex c = Some (r, g, b)"
    by (auto simp: channels_in_range_iff)
  from darkenColor_channels [OF rgb assms(2,3)] show ?thesis
    by (simp only: channels_in_range_iff) simp
qed

lemma lightenColor_channels:
  assumes "rgb_of_hex c = Some (r, g, b)" "0 \<le> percent" "percent \<le> 100"
  shows "rgb_of_hex (lightenColor c percent) =
         Some (Math_round (of_int r + of_int (255 - r) * (percent / 100)),
               Math_round (of_int g + of_int (255 - g) * (percent / 100)),
               Math_round (of_int b + of_int (255 - b) * (percent / 100)))"
proof -
  note rd = rgb_readers [OF assms(1)] and rg = rgb_of_hex_range [OF assms(1)]
  note d = lighten_range [OF assms(2,3)]
  define R where "R = Math_round (of_int r + of_int (255 - r) * (percent / 100))"
  define G where "G = Math_round (of_int g + of_int (255 - g) * (percent / 100))"
  define B where "B = Math_round (of_int b + of_int (255 - b) * (percent / 100))"
  have eq: "lightenColor c percent =
        ''#'' @ padStart (toString16 (Some R)) 2 CHR ''0''
              @ padStart (toString16 (Some G)) 2 CHR ''0''
              @ padStart (toString16 (Some B)) 2 CHR ''0''"
    using rd by (simp add: lightenColor_def Let_def R_def G_def B_def)
  have "rgb_of_hex (lightenColor c percent) = Some (R, G, B)"
    unfolding eq using rg d [of r] d [of g] d [of b]
    by (intro rgb_of_hex_bytes) (simp_all add: R_def G_def B_def)
  then show ?thesis
    by (simp only: R_def G_def B_def)
qed

lemma lightenColor_in_range:
  assumes "channels_in_range c" "0 \<le> percent" "percent \<le> 100"
  shows "channels_in_range (lightenColor c percent)"
proof -
  from assms(1) obtain r g b where rgb: "rgb_of_hex c = Some (r, g, b)"
    by (auto simp: channels_in_range_iff)
  from lightenColor_channels [OF rgb assms(2,3)] show ?thesis
    by (simp only: channels_in_range_iff) simp
qed

lemma parseInt16_six:
  assumes "hexPair r1 r0 = Some r" "hexPair g1 g0 = Some g" "hexPair b1 b0 = Some b"
  shows "parseInt16 [r1, r0, g1, g0, b1, b0] = Some (r * 65536 + g * 256 + b)"
proof -
  from assms obtain x1 x0 y1 y0 z1 z0 where
    v: "hexDigitValue r1 = Some x1" "hexDigitValue r0 = Some x0"
       "hexDigitValue g1 = Some y1" "hexDigitValue g0 = Some y0"
       "hexDigitValue b1 = Some z1" "hexDigitValue b0 = Some z0" and
    e: "r = int (16 * x1 + x0)" "g = int (16 * y1 + y0)" "b = int (16 * z1 + z0)"
    using hexPair_SomeD by metis
  note f = v [THEN hexDigit_facts]
  show ?thesis
    using f v by (simp add: parseInt16_def hexValue_def Let_def e)
qed

lemma toInt32_small: "0 \<le> n \<Longrightarrow> n < 2147483648 \<Longrightarrow> toInt32 (Some n) = n"
  by (simp add: toInt32_def)

lemma and_255: "(n::int) AND 255 = n mod 256"
proof -
  have "n AND mask 8 = n mod 2 ^ 8"
    by (simp only: take_bit_eq_mask [symmetric] take_bit_eq_mod)
  moreover have "(mask 8 :: int) = 255"
    by (simp add: mask_eq_exp_minus_1)
  ultimately show ?thesis
    by simp
qed

lemma split_rgb:
  fixes r g b :: int
  assumes "0 \<le> r" "r \<le> 255" "0 \<le> g" "g \<le> 255" "0 \<le> b" "b \<le> 255"
  shows "drop_bit 16 (r * 65536 + g * 256 + b) = r"
    "drop_bit 8 (r * 65536 + g * 256 + b) AND 255 = g"
    "(r * 65536 + g * 256 + b) AND 255 = b"
proof -
  have e16: "r * 65536 + g * 256 + b = r * 65536 + (g * 256 + b)"
    and e8: "r * 65536 + g * 256 + b = (r * 256 + g) * 256 + b"
    by simp_all
  have lo: "0 \<le> g * 256 + b" "g * 256 + b < 65536"
    using assms by auto
  have "(r * 65536 + (g * 256 + b)) div 65536 = r + (g * 256 + b) div 65536"
    by (rule div_mult_self3) simp
  also have "(g * 256 + b) div 65536 = 0"
    using lo by (rule div_pos_pos_trivial)
  finally show "drop_bit 16 (r * 65536 + g * 256 + b) = r"
    by (simp add: drop_bit_eq_div e16)
  have "((r * 256 + g) * 256 + b) div 256 = (r * 256 + g) + b div 256"
    by (rule div_mult_self3) simp
  also have "b div 256 = 0"
    using assms by (intro div_pos_pos_trivial) auto
  finally have d8: "(r * 65536 + g * 256 + b) div 256 = r * 256 + g"
    by (simp add: e8)
  have "(r * 256 + g) mod 256 = g mod 256"
    by (rule mod_mult_self3)
  also have "g mod 256 = g"
    using assms by (intro mod_pos_pos_trivial) auto
  finally show "drop_bit 8 (r * 65536 + g * 256 + b) AND 255 = g"
    by (simp add: drop_bit_eq_div and_255 d8)
  have "((r * 256 + g) * 256 + b) mod 256 = b mod 256"
    by (rule mod_mult_self3)
  also have "b mod 256 = b"
    using assms by (intro mod_pos_pos_trivial) auto
  finally show "(r * 65536 + g * 256 + b) AND 255 = b"
    by (simp add: and_255 e8)
qed

lemma hexDigits_rgb:
  assumes "R < 256" "G < 256" "B < 256"
  shows "hexDigits (16777216 + R * 65536 + G * 256 + B) =
         [CHR ''1'', hexChar (R div 16), hexChar (R mod 16), hexChar (G div 16),
          hexChar (G mod 16), hexChar (B div 16), hexChar (B mod 16)]"
proof -
  define a1 a0 c1 c0 d1 d0 where "a1 = R div 16" and "a0 = R mod 16" and "c1 = G div 16"
    and "c0 = G mod 16" and "d1 = B div 16" and "d0 = B mod 16"
  have R: "R = 16 * a1 + a0" and G: "G = 16 * c1 + c0" and B: "B = 16 * d1 + d0"
    by (simp_all add: a1_def a0_def c1_def c0_def d1_def d0_def)
  have lt: "a1 < 16" "a0 < 16" "c1 < 16" "c0 < 16" "d1 < 16" "d0 < 16"
    using assms by (auto simp: a1_def a0_def c1_def c0_def d1_def d0_def)
  define q1 q2 q3 q4 q5 q6 where "q1 = 16 * 1 + a1" and "q2 = 16 * q1 + a0"
    and "q3 = 16 * q2 + c1" and "q4 = 16 * q3 + c0" and "q5 = 16 * q4 + d1"
    and "q6 = 16 * q5 + d0"
  have eq: "16777216 + R * 65536 + G * 256 + B = q6"
    by (simp add: R G B q1_def q2_def q3_def q4_def q5_def q6_def)
  have pos: "0 < q1" "0 < q2" "0 < q3" "0 < q4" "0 < q5"
    by (simp_all add: q1_def q2_def q3_def q4_def q5_def)
  have one: "hexDigits 1 = [CHR ''1'']"
    by (simp add: hexDigits.simps hexChar_def)
  have "hexDigits q1 = [CHR ''1'', hexChar a1]"
    unfolding q1_def using lt by (simp only: hexDigits_step one) simp
  then have "hexDigits q2 = [CHR ''1'', hexChar a1, hexChar a0]"
    unfolding q2_def using lt pos by (simp add: hexDigits_step)
  then have "hexDigits q3 = [CHR ''1'', hexChar a1, hexChar a0, hexChar c1]"
    unfolding q3_def using lt pos by (simp add: hexDigits_step)
  then have "hexDigits q4 = [CHR ''1'', hexChar a1, hexChar a0, hexChar c1, hexChar c0]"
    unfolding q4_def using lt pos by (simp add: hexDigits_step)
  then have "hexDigits q5 = [CHR ''1'', hexChar a1, hexChar a0, hexChar c1, hexChar c0,
                             hexChar d1]"
    unfolding q5_def using lt pos by (simp add: hexDigits_step)
  then have "hexDigits q6 = [CHR ''1'', hexChar a1, hexChar a0, hexChar c1, hexChar c0,
                             hexChar d1, hexChar d0]"
    unfolding q6_def using lt pos by (simp add: hexDigits_step)
  then show ?thesis
    unfolding eq by (simp add: a1_def a0_def c1_def c0_def d1_def d0_def)
qed

lemma clamp255_range: "0 \<le> clamp255 x \<and> clamp255 x \<le> 255"
  by (simp add: clamp255_def)

lemma adjust_output:
  "rgb_of_hex (CHR ''#'' # slice (toString16 (Some (16777216 + clamp255 x * 65536
                                                  + clamp255 y * 256 + clamp255 z))) 1)
     = Some (clamp255 x, clamp255 y, clamp255 z)"
proof -
  define R G B where "R = nat (clamp255 x)" and "G = nat (clamp255 y)"
    and "B = nat (clamp255 z)"
  have lt: "R < 256" "G < 256" "B < 256"
    using clamp255_range [of x] clamp255_range [of y] clamp255_range [of z]
    by (auto simp: R_def G_def B_def)
  have i: "clamp255 x = int R" "clamp255 y = int G" "clamp255 z = int B"
    using clamp255_range [of x] clamp255_range [of y] clamp255_range [of z]
    by (auto simp: R_def G_def B_def)
  have m: "16777216 + int R * 65536 + int G * 256 + int B =
           int (16777216 + R * 65536 + G * 256 + B)"
    by simp
  have "slice (toString16 (Some (16777216 + int R * 65536 + int G * 256 + int B))) 1 =
        [hexChar (R div 16), hexChar (R mod 16), hexChar (G div 16),
         hexChar (G mod 16), hexChar (B div 16), hexChar (B mod 16)]"
    unfolding m toString16_def using hexDigits_rgb [OF lt]
    by (simp add: slice_def del: of_nat_add of_nat_mult)
  then show ?thesis
    unfolding i using lt [THEN hexPair_hexChar] by simp
qed

lemma clamp255_eq: "clamp255 x = clamp_channel x"
  by (simp add: clamp255_def clamp_channel_def)

lemma adjustColorBrightness_channels:
  assumes "rgb_of_hex c = Some (r, g, b)"
  shows "rgb_of_hex (adjustColorBrightness c percent) =
         Some (clamp_channel (r + Math_round (255 / 100 * percent)),
               clamp_channel (g + Math_round (255 / 100 * percent)),
               clamp_channel (b + Math_round (255 / 100 * percent)))"
proof -
  from rgb_of_hex_SomeD [OF assms] obtain r1 r0 g1 g0 b1 b0 where
    c: "c = [CHR ''#'', r1, r0, g1, g0, b1, b0]" and
    h: "hexPair r1 r0 = Some r" "hexPair g1 g0 = Some g" "hexPair b1 b0 = Some b"
    by blast
  note rg = rgb_of_hex_range [OF assms]
  define n where "n = r * 65536 + g * 256 + b"
  have p: "parseInt16 [r1, r0, g1, g0, b1, b0] = Some n"
    using parseInt16_six [OF h] by (simp add: n_def)
  have "0 \<le> n" "n < 2147483648"
    using rg by (auto simp: n_def)
  then have t: "toInt32 (Some n) = n"
    by (rule toInt32_small)
  have s: "drop_bit 16 n = r" "drop_bit 8 n AND 255 = g" "n AND 255 = b"
    unfolding n_def using rg by (simp_all only: split_rgb)
  have "adjustColorBrightness c percent =
        CHR ''#'' # slice (toString16 (Some (16777216
            + clamp255 (r + Math_round (255 / 100 * percent)) * 65536
            + clamp255 (g + Math_round (255 / 100 * percent)) * 256
            + clamp255 (b + Math_round (255 / 100 * percent))))) 1"
    by (simp add: adjustColorBrightness_def Let_def c startsWith_def p t s)
  then have "rgb_of_hex (adjustColorBrightness c percent) =
         Some (clamp255 (r + Math_round (255 / 100 * percent)),
               clamp255 (g + Math_round (255 / 100 * percent)),
               clamp255 (b + Math_round (255 / 100 * percent)))"
    by (simp only: adjust_output)
  then show ?thesis
    by (simp only: clamp255_eq)
qed

lemma adjustColorBrightness_in_range:
  assumes "channels_in_range c"
  shows "channels_in_range (adjustColorBrightness c percent)"
proof -
  from assms obtain r g b where rgb: "rgb_of_hex c = Some (r, g, b)"
    by (auto simp: channels_in_range_iff)
  from adjustColorBrightness_channels [OF rgb, of percent] show ?thesis
    by (simp only: channels_in_range_iff) simp
qed

lemma Math_round_offsets:
  "Math_round (255 / 100 * (- 15)) = - 38" "Math_round (255 / 100 * (- 8)) = - 20"
  by (simp_all add: Math_round_def floor_eq_iff)

lemma constants_in_range:
  "channels_in_range ''#ffffff''" "channels_in_range ''#2d3748''"
  "channels_in_range ''#f7fafc''" "channels_in_range ''#f8f9fa''"
  "channels_in_range ''#e2e8f0''" "channels_in_range ''#4299e1''"
  "channels_in_range ''#63b3ed''"
  by (simp_all add: channels_in_range_def hexPair_def hexDigitValue_def)

lemma ensureAccessibleColors_in_range:
  assumes "palette_in_range p"
  shows "palette_in_range (ensureAccessibleColors p)"
  using assms
  by (cases "isLightColor (background p)"; cases "isLightColor (text' p)";
      cases "isLightColor (botBg p)"; cases "isColorTooSimilar (primary p) (background p)";
      simp add: ensureAccessibleColors_def Let_def isDarkColor_def isLightColor_constants
        palette_in_range_def constants_in_range)

lemma wellFormedColors_lookup:
  assumes "wellFormedColors cs" "map_of cs k = Some v"
  shows "channels_in_range v" "v \<noteq> []"
proof -
  from assms(2) have "(k, v) \<in> set cs"
    by (rule map_of_SomeD)
  with assms(1) have "rgb_of_hex v \<noteq> None"
    by (auto simp: wellFormedColors_def list_all_iff)
  then show "channels_in_range v" "v \<noteq> []"
    by (auto simp: channels_in_range_iff)
qed

lemma or_else_in_range:
  assumes "wellFormedColors cs" "channels_in_range d"
  shows "channels_in_range (or_else (map_of cs k) d)"
  using assms wellFormedColors_lookup [OF assms(1), of k]
  by (cases "map_of cs k") (auto simp: or_else_def)

lemma getContrastingTextColor_in_range: "channels_in_range (getContrastingTextColor c)"
  by (simp add: getContrastingTextColor_def constants_in_range)

lemma generateBotBackgroundColor_in_range:
  assumes "wellFormedColors cs" "map_of cs ''primary'' = Some p"
  shows "channels_in_range (generateBotBackgroundColor cs)"
proof -
  note pr = wellFormedColors_lookup [OF assms]
  have l: "channels_in_range (lightenColor p 75)"
    using pr by (intro lightenColor_in_range) simp_all
  show ?thesis
  proof (cases "map_of cs ''secondary''")
    case None
    then show ?thesis
      using l pr assms(2) by (simp add: generateBotBackgroundColor_def truthy_def or_else_def)
  next
    case (Some s)
    note sr = wellFormedColors_lookup [OF assms(1) Some]
    have "channels_in_range (lightenColor s 60)"
      using sr by (intro lightenColor_in_range) simp_all
    then show ?thesis
      using l pr sr assms(2) Some
      by (simp add: generateBotBackgroundColor_def truthy_def or_else_def)
  qed
qed

lemma getThemeColors_valid:
  assumes "map_of cs ''primary'' = Some p" "p \<noteq> []" "isWebsiteSpecificColor p"
  shows "getThemeColors ''website'' (Some \<lparr>colors = Some cs\<rparr>) =
         ensureAccessibleColors
           \<lparr>primary = p, primaryDark = darkenColor p 20, primaryLight = lightenColor p 20,
            secondary = or_else (map_of cs ''secondary'') (adjustColorBrightness p (- 15)),
            background = or_else (map_of cs ''background'') ''#ffffff'',
            text' = or_else (map_of cs ''text'')
                      (getContrastingTextColor (or_else (map_of cs ''background'') ''#ffffff'')),
            border = or_else (map_of cs ''border'')
                       (adjustColorBrightness (or_else (map_of cs ''background'') ''#ffffff'')
                          (- 8)),
            button = or_else (map_of cs ''button'') p,
            link = or_else (map_of cs ''link'') p,
            accent = or_else (map_of cs ''accent'') p,
            userBg = p, botBg = generateBotBackgroundColor cs, headerBg = p,
            headerText = getContrastingTextColor p\<rparr>"
  using assms by (simp add: getThemeColors_def Let_def truthy_def or_else_def)

lemma ensureAccessibleColors_keeps:
  "primaryDark (ensureAccessibleColors q) = primaryDark q"
  "primaryLight (ensureAccessibleColors q) = primaryLight q"
  "secondary (ensureAccessibleColors q) = secondary q"
  "border (ensureAccessibleColors q) = border q"
  "background (ensureAccessibleColors q) = background q"
  by (cases "isLightColor (background q)"; cases "isLightColor (text' q)";
      cases "isLightColor (botBg q)"; cases "isColorTooSimilar (primary q) (background q)";
      simp add: ensureAccessibleColors_def Let_def isDarkColor_def isLightColor_constants)+

lemma getThemeColors_palette_in_range:
  assumes "wellFormedColors cs" and "map_of cs ''primary'' = Some p"
    and "isWebsiteSpecificColor p"
  shows "palette_in_range (getThemeColors ''website'' (Some \<lparr>colors = Some cs\<rparr>))"
proof -
  note pr = wellFormedColors_lookup [OF assms(1,2)]
  define bg where "bg = or_else (map_of cs ''background'') ''#ffffff''"
  have bgr: "channels_in_range bg"
    unfolding bg_def using assms(1) by (intro or_else_in_range) (simp_all add: constants_in_range)
  define raw where "raw =
     \<lparr>primary = p, primaryDark = darkenColor p 20, primaryLight = lightenColor p 20,
      secondary = or_else (map_of cs ''secondary'') (adjustColorBrightness p (- 15)),
      background = bg,
      text' = or_else (map_of cs ''text'') (getContrastingTextColor bg),
      border = or_else (map_of cs ''border'') (adjustColorBrightness bg (- 8)),
      button = or_else (map_of cs ''button'') p,
      link = or_else (map_of cs ''link'') p,
      accent = or_else (map_of cs ''accent'') p,
      userBg = p, botBg = generateBotBackgroundColor cs, headerBg = p,
      headerText = getContrastingTextColor p\<rparr>"
  have g: "getThemeColors ''website'' (Some \<lparr>colors = Some cs\<rparr>) =
           ensureAccessibleColors raw"
    unfolding raw_def bg_def by (rule getThemeColors_valid [OF assms(2) pr(2) assms(3)])
  have "channels_in_range (darkenColor p 20)"
    using pr by (intro darkenColor_in_range) simp_all
  moreover have "channels_in_range (lightenColor p 20)"
    using pr by (intro lightenColor_in_range) simp_all
  moreover have "channels_in_range (or_else (map_of cs ''secondary'')
                   (adjustColorBrightness p (- 15)))"
    using assms(1) pr by (intro or_else_in_range adjustColorBrightness_in_range)
  moreover have "channels_in_range (or_else (map_of cs ''text'') (getContrastingTextColor bg))"
    using assms(1) by (intro or_else_in_range getContrastingTextColor_in_range)
  moreover have "channels_in_range (or_else (map_of cs ''border'')
                   (adjustColorBrightness bg (- 8)))"
    using assms(1) bgr by (intro or_else_in_range adjustColorBrightness_in_range)
  moreover have "channels_in_range (or_else (map_of cs ''button'') p)"
    "channels_in_range (or_else (map_of cs ''link'') p)"
    "channels_in_range (or_else (map_of cs ''accent'') p)"
    using assms(1) pr by (auto intro: or_else_in_range)
  moreover have "channels_in_range (generateBotBackgroundColor cs)"
    using assms(1,2) by (rule generateBotBackgroundColor_in_range)
  ultimately have "palette_in_range raw"
    using pr bgr by (simp add: palette_in_range_def raw_def getContrastingTextColor_in_range)
  then show ?thesis
    unfolding g by (rule ensureAccessibleColors_in_range)
qed

text \<open>
  C9, as the code has it. Let every colour of the extracted \<^verbatim>\<open>colors\<close> object be a
  well-formed \<^verbatim>\<open>#rrggbb\<close>, let the primary colour, of channels \<open>r\<close>, \<open>g\<close>, \<open>b\<close>, pass
  validation, and let the background (the extracted one, or white) have the channels
  \<open>r'\<close>, \<open>g'\<close>, \<open>b'\<close>. Then each of the 14 roles of the derived palette is a well-formed
  colour with its three channels between 0 and 255. The dark and the light primary hold
  the rounded interpolations by 20 percent towards black and towards white. A derived
  secondary holds each channel of the primary less 38, and a derived border each channel
  of the background less 20, clamped: a difference below 0 gives 0, and none wraps around.
\<close>

theorem getThemeColors_channels_clamped:
  assumes "wellFormedColors cs" and "map_of cs ''primary'' = Some p"
    and "isWebsiteSpecificColor p"
    and "rgb_of_hex p = Some (r, g, b)"
    and "rgb_of_hex (or_else (map_of cs ''background'') ''#ffffff'') = Some (r', g', b')"
  shows "palette_in_range (getThemeColors ''website'' (Some \<lparr>colors = Some cs\<rparr>)) \<and>
    rgb_of_hex (primaryDark (getThemeColors ''website'' (Some \<lparr>colors = Some cs\<rparr>))) =
      Some (Math_round (of_int r * ((100 - 20) / 100)),
            Math_round (of_int g * ((100 - 20) / 100)),
            Math_round (of_int b * ((100 - 20) / 100))) \<and>
    rgb_of_hex (primaryLight (getThemeColors ''website'' (Some \<lparr>colors = Some cs\<rparr>))) =
      Some (Math_round (of_int r + of_int (255 - r) * (20 / 100)),
            Math_round (of_int g + of_int (255 - g) * (20 / 100)),
            Math_round (of_int b + of_int (255 - b) * (20 / 100))) \<and>
    (map_of cs ''secondary'' = None \<longrightarrow>
       rgb_of_hex (secondary (getThemeColors ''website'' (Some \<lparr>colors = Some cs\<rparr>))) =
         Some (clamp_channel (r - 38), clamp_channel (g - 38), clamp_channel (b - 38))) \<and>
    (map_of cs ''border'' = None \<longrightarrow>
       rgb_of_hex (border (getThemeColors ''website'' (Some \<lparr>colors = Some cs\<rparr>))) =
         Some (clamp_channel (r' - 20), clamp_channel (g' - 20), clamp_channel (b' - 20)))"
proof -
  note pr = wellFormedColors_lookup [OF assms(1,2)]
  note g = getThemeColors_valid [OF assms(2) pr(2) assms(3)]
  have "palette_in_range (getThemeColors ''website'' (Some \<lparr>colors = Some cs\<rparr>))"
    using assms(1-3) by (rule getThemeColors_palette_in_range)
  moreover have "rgb_of_hex (primaryDark (getThemeColors ''website'' (Some \<lparr>colors = Some cs\<rparr>))) =
      Some (Math_round (of_int r * ((100 - 20) / 100)),
            Math_round (of_int g * ((100 - 20) / 100)),
            Math_round (of_int b * ((100 - 20) / 100)))"
    using darkenColor_channels [OF assms(4), of 20]
    by (simp add: g ensureAccessibleColors_keeps)
  moreover have "rgb_of_hex (primaryLight (getThemeColors ''website'' (Some \<lparr>colors = Some cs\<rparr>))) =
      Some (Math_round (of_int r + of_int (255 - r) * (20 / 100)),
            Math_round (of_int g + of_int (255 - g) * (20 / 100)),
            Math_round (of_int b + of_int (255 - b) * (20 / 100)))"
    using lightenColor_channels [OF assms(4), of 20]
    by (simp add: g ensureAccessibleColors_keeps)
  moreover have "map_of cs ''secondary'' = None \<longrightarrow>
       rgb_of_hex (secondary (getThemeColors ''website'' (Some \<lparr>colors = Some cs\<rparr>))) =
         Some (clamp_channel (r - 38), clamp_channel (g - 38), clamp_channel (b - 38))"
    using adjustColorBrightness_channels [OF assms(4), of "- 15", unfolded Math_round_offsets]
    by (simp add: g ensureAccessibleColors_keeps or_else_def)
  moreover have "map_of cs ''border'' = None \<longrightarrow>
       rgb_of_hex (border (getThemeColors ''website'' (Some \<lparr>colors = Some cs\<rparr>))) =
         Some (clamp_channel (r' - 20), clamp_channel (g' - 20), clamp_channel (b' - 20))"
  proof
    assume n: "map_of cs ''border'' = None"
    have "border (getThemeColors ''website'' (Some \<lparr>colors = Some cs\<rparr>)) =
          adjustColorBrightness (or_else (map_of cs ''background'') ''#ffffff'') (- 8)"
      by (simp add: g ensureAccessibleColors_keeps n or_else_def [of None])
    then show "rgb_of_hex (border (getThemeColors ''website'' (Some \<lparr>colors = Some cs\<rparr>))) =
         Some (clamp_channel (r' - 20), clamp_channel (g' - 20), clamp_channel (b' - 20))"
      using adjustColorBrightness_channels [OF assms(5), of "- 8", unfolded Math_round_offsets]
      by simp
  qed
  ultimately show ?thesis
    by blast
qed

theorem getThemeColors_channels_clamped_witness:
  "wellFormedColors [(''primary'', ''#ff6600'')] \<and>
   map_of [(''primary'', ''#ff6600'')] ''primary'' = Some ''#ff6600'' \<and>
   isWebsiteSpecificColor ''#ff6600'' \<and>
   rgb_of_hex ''#ff6600'' = Some (255, 102, 0) \<and>
   rgb_of_hex (or_else (map_of [(''primary'', ''#ff6600'')] ''background'') ''#ffffff'') =
     Some (255, 255, 255) \<and>
   palette_in_range (getThemeColors ''website''
                       (Some \<lparr>colors = Some [(''primary'', ''#ff6600'')]\<rparr>)) \<and>
   rgb_of_hex (secondary (getThemeColors ''website''
                            (Some \<lparr>colors = Some [(''primary'', ''#ff6600'')]\<rparr>))) =
     Some (217, 64, 0) \<and>
   rgb_of_hex (border (getThemeColors ''website''
                         (Some \<lparr>colors = Some [(''primary'', ''#ff6600'')]\<rparr>))) =
     Some (235, 235, 235)"
proof -
  have v: "isWebsiteSpecificColor ''#ff6600''"
    by code_simp
  have w: "wellFormedColors [(''primary'', ''#ff6600'')]"
    by (simp add: wellFormedColors_def hexPair_def hexDigitValue_def)
  have m: "map_of [(''primary'', ''#ff6600'')] ''primary'' = Some ''#ff6600''"
    by simp
  have p: "rgb_of_hex ''#ff6600'' = Some (255, 102, 0)"
    by (simp add: hexPair_def hexDigitValue_def)
  have b: "rgb_of_hex (or_else (map_of [(''primary'', ''#ff6600'')] ''background'') ''#ffffff'')
           = Some (255, 255, 255)"
    by (simp add: or_else_def hexPair_def hexDigitValue_def)
  have n: "map_of [(''primary'', ''#ff6600'')] ''secondary'' = None"
    "map_of [(''primary'', ''#ff6600'')] ''border'' = None"
    by simp_all
  from getThemeColors_channels_clamped [OF w m v p b] n
  have "palette_in_range (getThemeColors ''website''
                       (Some \<lparr>colors = Some [(''primary'', ''#ff6600'')]\<rparr>)) \<and>
   rgb_of_hex (secondary (getThemeColors ''website''
                            (Some \<lparr>colors = Some [(''primary'', ''#ff6600'')]\<rparr>))) =
     Some (clamp_channel (255 - 38), clamp_channel (102 - 38), clamp_channel (0 - 38)) \<and>
   rgb_of_hex (border (getThemeColors ''website''
                         (Some \<lparr>colors = Some [(''primary'', ''#ff6600'')]\<rparr>))) =
     Some (clamp_channel (255 - 20), clamp_channel (255 - 20), clamp_channel (255 - 20))"
    by blast
  then show ?thesis
    using v w m p b by (simp add: clamp_channel_def)
qed

text \<open>
  C9, as stated, fails. The primary \<^verbatim>\<open>#ff6600\<close> passes validation; with the three-digit
  secondary \<^verbatim>\<open>#fff\<close>, a black background and white text, the bot background of the derived
  palette is \<^verbatim>\<open>#ff9fNaN\<close>, whose third channel reads as \<^verbatim>\<open>NaN\<close>. The string
  \<^verbatim>\<open>#-1ff00\<close> passes validation too, and as a primary it gives the dark primary
  \<^verbatim>\<open>#-1cc00\<close>, whose first channel reads as -1.
\<close>

theorem getThemeColors_malformed_counterexample:
  "isWebsiteSpecificColor ''#ff6600'' \<and>
   botBg (getThemeColors ''website''
            (Some \<lparr>colors = Some [(''primary'', ''#ff6600''), (''secondary'', ''#fff''),
                                  (''background'', ''#000000''), (''text'', ''#ffffff'')]\<rparr>))
     = ''#ff9fNaN'' \<and>
   parseInt16 (substr (slice ''#ff9fNaN'' 1) 4 2) = None \<and>
   isWebsiteSpecificColor ''#-1ff00'' \<and>
   primaryDark (getThemeColors ''website'' (Some \<lparr>colors = Some [(''primary'', ''#-1ff00'')]\<rparr>))
     = ''#-1cc00'' \<and>
   parseInt16 (substr (slice ''#-1cc00'' 1) 0 2) = Some (- 1)"
proof -
  have v: "isWebsiteSpecificColor ''#ff6600''" "isWebsiteSpecificColor ''#-1ff00''"
    by code_simp+
  have l: "\<not> isLightColor ''#000000''" "isLightColor ''#ffffff''" "\<not> isLightColor ''#ff9fNaN''"
    by code_simp+
  have gb: "generateBotBackgroundColor
              [(''primary'', ''#ff6600''), (''secondary'', ''#fff''),
               (''background'', ''#000000''), (''text'', ''#ffffff'')] = ''#ff9fNaN''"
    by code_simp
  have d: "darkenColor ''#-1ff00'' 20 = ''#-1cc00''"
    by code_simp
  have n: "parseInt16 (substr (slice ''#ff9fNaN'' 1) 4 2) = None"
    "parseInt16 (substr (slice ''#-1cc00'' 1) 0 2) = Some (- 1)"
    by code_simp+
  have "botBg (getThemeColors ''website''
            (Some \<lparr>colors = Some [(''primary'', ''#ff6600''), (''secondary'', ''#fff''),
                                  (''background'', ''#000000''), (''text'', ''#ffffff'')]\<rparr>))
        = ''#ff9fNaN''"
    by (subst getThemeColors_valid [of _ "''#ff6600''"])
       (simp_all add: v ensureAccessibleColors_def Let_def isDarkColor_def or_else_def l gb)
  moreover have "primaryDark (getThemeColors ''website''
                   (Some \<lparr>colors = Some [(''primary'', ''#-1ff00'')]\<rparr>)) = ''#-1cc00''"
    by (subst getThemeColors_valid [of _ "''#-1ff00''"])
       (simp_all add: v ensureAccessibleColors_keeps d)
  ultimately show ?thesis
    using v n by simp
qed

subsection \<open>Malformed input to the transforms\<close>

lemma transforms_unchanged_without_hash:
  "color = [] \<or> \<not> startsWith color ''#'' \<Longrightarrow>
     darkenColor color percent = color \<and> lightenColor color percent = color \<and>
     adjustColorBrightness color percent = color"
  by (auto simp: darkenColor_def lightenColor_def adjustColorBrightness_def)

lemma adjustColorBrightness_short_hex: "adjustColorBrightness ''#fff'' (- 8) = ''#0000eb''"
proof -
  have p: "parseInt16 ''fff'' = Some 4095"
    by code_simp
  have t: "toInt32 (Some 4095) = 4095"
    by (simp add: toInt32_def)
  have m: "Math_round (255 / 100 * (- 8)) = - 20"
    by (simp add: Math_round_def floor_eq_iff)
  have b: "drop_bit 16 (4095::int) = 0" "drop_bit 8 (4095::int) AND 255 = 15"
    "(4095::int) AND 255 = 255"
    by (simp_all add: drop_bit_eq_div and_255)
  have h: "hexDigits 16777451 = ''10000eb''"
    using hexDigits_rgb [of 0 0 235] by (simp add: hexChar_def)
  have "adjustColorBrightness ''#fff'' (- 8) =
        ''#'' @ slice (toString16 (Some (16777216 + clamp255 (0 + (- 20)) * 65536
                 + clamp255 (15 + (- 20)) * 256 + clamp255 (255 + (- 20))))) 1"
    unfolding adjustColorBrightness_def Let_def m
    by (simp add: startsWith_def p t b)
  also have "\<dots> = ''#0000eb''"
    by (simp add: clamp255_def toString16_def h slice_def)
  finally show ?thesis .
qed

text \<open>
  C5. The three-digit colour \<^verbatim>\<open>#fff\<close> starts with a hash and its hex part is not six
  digits. None of the three transforms returns it unchanged: darkening and lightening
  by 20 percent give strings with \<^verbatim>\<open>NaN\<close> in them, and the brightness adjustment by -8
  percent gives \<^verbatim>\<open>#0000eb\<close>.
\<close>

theorem transforms_short_hex:
  "startsWith ''#fff'' ''#'' \<and> rgb_of_hex ''#fff'' = None \<and>
   darkenColor ''#fff'' 20 = ''#cc0cNaN'' \<and> lightenColor ''#fff'' 20 = ''#ff3fNaN'' \<and>
   adjustColorBrightness ''#fff'' (- 8) = ''#0000eb''"
proof -
  have "startsWith ''#fff'' ''#'' \<and> rgb_of_hex ''#fff'' = None \<and>
        darkenColor ''#fff'' 20 = ''#cc0cNaN'' \<and> lightenColor ''#fff'' 20 = ''#ff3fNaN''"
    by code_simp
  then show ?thesis
    using adjustColorBrightness_short_hex by simp
qed

section \<open>Properties of the configuration sync\<close>

subsection \<open>Change detection\<close>

text \<open>
  C2. The change detection answers true exactly when there is no baseline, or the selected
  website ids differ, or the theme choices differ, or the new theme choice is
  \<^verbatim>\<open>website\<close> and the serialized theme data differ. A configuration compared with itself
  as the baseline is unchanged.
\<close>

theorem hasConfigurationChanged_iff:
  "hasConfigurationChanged this newConfig =
     (case sdkConfig this of
        None \<Rightarrow> True
      | Some old \<Rightarrow>
          selectedWebsiteId old \<noteq> selectedWebsiteId newConfig \<or>
          themeChoiceOf old \<noteq> themeChoiceOf newConfig \<or>
          (themeChoiceOf newConfig = Some ''website'' \<and>
           serializedThemeData old \<noteq> serializedThemeData newConfig)) \<and>
   (sdkConfig this = Some newConfig \<longrightarrow> \<not> hasConfigurationChanged this newConfig)"
  by (cases "sdkConfig this")
     (auto simp: hasConfigurationChanged_def selectedWebsiteId_def themeChoiceOf_def
        serializedThemeData_def Let_def)

theorem hasConfigurationChanged_iff_witness:
  "\<not> hasConfigurationChanged
       (constructor default_options
          \<lparr>sdkConfig := Some \<lparr>selectedWebsite = Some \<lparr>id' = ''a'', url = None,
                                 displayName = None, fileName = None\<rparr>,
                               availableWebsites = Some [],
                               integration = Some \<lparr>themeChoice = Some ''website'',
                                                   customizations = None\<rparr>,
                               themeData = Some \<lparr>colors = Some [(''primary'', ''#ff6600'')]\<rparr>\<rparr>\<rparr>)
       \<lparr>selectedWebsite = Some \<lparr>id' = ''a'', url = None, displayName = None, fileName = None\<rparr>,
        availableWebsites = Some [],
        integration = Some \<lparr>themeChoice = Some ''website'', customizations = None\<rparr>,
        themeData = Some \<lparr>colors = Some [(''primary'', ''#ff6600'')]\<rparr>\<rparr>"
  by (rule hasConfigurationChanged_iff [THEN conjunct2, THEN mp]) simp

subsection \<open>Applying a configuration\<close>

text \<open>
  C10. Applying a configuration that has no integration, or that has neither a selected
  website nor the list of available websites, throws a \<^verbatim>\<open>TypeError\<close>, whatever the state;
  the change detection is a total function of the same configurations.
\<close>

theorem applyNewConfiguration_throws:
  "integration newConfig = None \<or>
   (selectedWebsite newConfig = None \<and> availableWebsites newConfig = None) \<Longrightarrow>
     \<exists>this'. applyNewConfiguration newConfig this = Inl (TypeError, this')"
  by (auto simp: applyNewConfiguration_def Let_def split: option.splits)

theorem applyNewConfiguration_throws_witness:
  "hasConfigurationChanged (constructor default_options)
     \<lparr>selectedWebsite = None, availableWebsites = None,
      integration = Some \<lparr>themeChoice = None, customizations = None\<rparr>, themeData = None\<rparr> \<and>
   (\<exists>this'. applyNewConfiguration
              \<lparr>selectedWebsite = None, availableWebsites = None,
               integration = Some \<lparr>themeChoice = None, customizations = None\<rparr>,
               themeData = None\<rparr>
              (constructor default_options) = Inl (TypeError, this'))"
proof
  show "hasConfigurationChanged (constructor default_options)
     \<lparr>selectedWebsite = None, availableWebsites = None,
      integration = Some \<lparr>themeChoice = None, customizations = None\<rparr>, themeData = None\<rparr>"
    by (simp add: hasConfigurationChanged_def constructor_def setupConfigRefresh_def Let_def)
  show "\<exists>this'. applyNewConfiguration
              \<lparr>selectedWebsite = None, availableWebsites = None,
               integration = Some \<lparr>themeChoice = None, customizations = None\<rparr>,
               themeData = None\<rparr>
              (constructor default_options) = Inl (TypeError, this')"
    by (rule applyNewConfiguration_throws) simp
qed

subsection \<open>Start-up with an invalid key\<close>

lemma invalid_key_state_step:
  assumes "invalid_key_state this" "\<not> carries_config ev"
  shows "invalid_key_state (step ev this)"
proof (cases ev)
  case (PollDone res)
  show ?thesis
  proof (cases res)
    case NetworkError
    then show ?thesis
      using assms PollDone
      by (simp add: invalid_key_state_def refreshConfiguration_resume_def)
  next
    case (Body success data)
    with assms(2) PollDone have "(if success then data else None) = None"
      by (cases data) (auto simp: carries_config_def)
    then show ?thesis
      using assms(1) PollDone Body
      by (simp add: invalid_key_state_def refreshConfiguration_resume_def)
  qed
qed (use assms in \<open>auto simp: invalid_key_state_def refreshConfiguration_start_def destroy_def
                      Let_def split: option.splits\<close>)

lemma invalid_key_state_run:
  assumes "invalid_key_state this" "list_all (\<lambda>ev. \<not> carries_config ev) evs"
  shows "invalid_key_state (run evs this)"
  using assms unfolding run_def
  by (induction evs arbitrary: this) (simp_all add: invalid_key_state_step)

lemma constructor_fields:
  "validation_pending (constructor opts)" "sdkConfig (constructor opts) = None"
  "\<not> load_pending (constructor opts)" "host (constructor opts) = (Some 1, [1], True, True)"
  by (simp_all add: constructor_def setupConfigRefresh_def host_def)

text \<open>
  C6, as the code has it. After the constructor and a failed validation, the invalid-key
  message is shown, the input and the send button are disabled, there is no baseline and
  no request of \<^verbatim>\<open>loadSdkConfiguration\<close> in flight, and this stays so through every later
  event that is not the answer to a poll with a configuration in it. The repeating timer and the two listeners are running all the
  same: the constructor started them before the validation was answered.
\<close>

theorem invalid_key_startup:
  "list_all (\<lambda>ev. \<not> carries_config ev) evs \<Longrightarrow>
     input_disabled (run (ValidationDone False # evs) (constructor opts)) \<and>
     send_disabled (run (ValidationDone False # evs) (constructor opts)) \<and>
     messages (run (ValidationDone False # evs) (constructor opts)) = ApiKeyErrorMessage \<and>
     sdkConfig (run (ValidationDone False # evs) (constructor opts)) = None \<and>
     \<not> load_pending (run (ValidationDone False # evs) (constructor opts)) \<and>
     host (step (ValidationDone False) (constructor opts)) = (Some 1, [1], True, True)"
proof -
  assume evs: "list_all (\<lambda>ev. \<not> carries_config ev) evs"
  define s where "s = step (ValidationDone False) (constructor opts)"
  have s: "s = (constructor opts)\<lparr>validation_pending := False, messages := ApiKeyErrorMessage,
                 input_disabled := True, send_disabled := True,
                 input_placeholder := ''Invalid API key - chatbot disabled''\<rparr>"
    by (simp add: s_def constructor_fields init_resume_def showApiKeyError_def state_of_def)
  have "invalid_key_state s"
    by (simp add: s invalid_key_state_def constructor_fields)
  from invalid_key_state_run [OF this evs]
  have "invalid_key_state (run (ValidationDone False # evs) (constructor opts))"
    by (simp add: run_def s_def)
  moreover have "host s = (Some 1, [1], True, True)"
    using constructor_fields(4) [of opts] by (simp add: s host_def)
  ultimately show ?thesis
    by (simp add: invalid_key_state_def s_def)
qed

theorem invalid_key_startup_witness:
  "list_all (\<lambda>ev. \<not> carries_config ev) [Tick 1, PollDone NetworkError, Focus] \<and>
   input_disabled (run [ValidationDone False, Tick 1, PollDone NetworkError, Focus]
                     (constructor default_options)) \<and>
   messages (run [ValidationDone False, Tick 1, PollDone NetworkError, Focus]
               (constructor default_options)) = ApiKeyErrorMessage"
proof -
  have h: "list_all (\<lambda>ev. \<not> carries_config ev) [Tick 1, PollDone NetworkError, Focus]"
    by (simp add: carries_config_def)
  from invalid_key_startup [OF h, of default_options] h show ?thesis
    by blast
qed

text \<open>
  C6, as stated, fails. With the default options and a failed validation the timer with
  id 1 is running; its tick starts a poll, and when that poll is answered with a
  configuration the input is enabled again.
\<close>

theorem invalid_key_timer_counterexample:
  "host_intervals (run [ValidationDone False] (constructor default_options)) = [1] \<and>
   pending_polls (run [ValidationDone False, Tick 1] (constructor default_options)) = 1 \<and>
   input_disabled
     (run [ValidationDone False, Tick 1,
           PollDone (Body True (Some \<lparr>selectedWebsite =
                                        Some \<lparr>id' = ''a'', url = None, displayName = None,
                                              fileName = None\<rparr>,
                                      availableWebsites = Some [],
                                      integration = Some \<lparr>themeChoice = Some ''default'',
                                                          customizations = None\<rparr>,
                                      themeData = None\<rparr>))]
        (constructor default_options)) = False"
  by code_simp

subsection \<open>Teardown\<close>

lemma host_frame:
  "host (createStyles this) = host this"
  "host (showNoSitesMessage this) = host this"
  "host (select_website w this) = host this"
  "host (apply_customizations c this) = host this"
  "host (load_customizations c this) = host this"
  by (simp_all add: host_def createStyles_def showNoSitesMessage_def select_website_def
        updateChatHeader_def clearChat_def enableInput_def apply_customizations_def
        load_customizations_def Let_def)

lemma host_update:
  "host (this\<lparr>sdkConfig := a\<rparr>) = host this"
  "host (this\<lparr>options := b\<rparr>) = host this"
  "host (this\<lparr>websiteTheme := c\<rparr>) = host this"
  "host (this\<lparr>pending_polls := d\<rparr>) = host this"
  "host (this\<lparr>load_pending := e\<rparr>) = host this"
  "host (this\<lparr>validation_pending := f\<rparr>) = host this"
  by (simp_all add: host_def)

lemma host_applyNewConfiguration:
  "host (state_of (applyNewConfiguration newConfig this)) = host this"
  by (simp add: applyNewConfiguration_def state_of_def Let_def host_frame host_update
        split: option.splits list.splits)

lemma host_refreshConfiguration_resume:
  "host (refreshConfiguration_resume res this) = host this"
proof (cases res)
  case NetworkError
  then show ?thesis
    by (simp add: refreshConfiguration_resume_def)
next
  case (Body success data)
  show ?thesis
  proof (cases "if success then data else None")
    case None
    then show ?thesis
      using Body by (simp add: refreshConfiguration_resume_def)
  next
    case (Some newConfig)
    then show ?thesis
      using Body host_applyNewConfiguration [of newConfig this]
      by (simp add: refreshConfiguration_resume_def state_of_def split: sum.splits)
  qed
qed

lemma host_loadSdkConfiguration_resume:
  "host (loadSdkConfiguration_resume res this) = host this"
  by (simp add: loadSdkConfiguration_resume_def Let_def host_frame host_update
        split: fetch_result.splits option.splits list.splits)

lemma host_step:
  assumes "ev \<noteq> Destroy"
  shows "host (step ev this) = host this"
proof (cases ev)
  case (ValidationDone ok)
  then show ?thesis
    by (simp add: init_resume_def showApiKeyError_def state_of_def host_def)
next
  case (LoadDone res)
  then show ?thesis
    by (simp add: host_loadSdkConfiguration_resume host_update)
next
  case (PollDone res)
  then show ?thesis
    by (simp add: host_refreshConfiguration_resume host_update)
qed (use assms in \<open>simp_all add: refreshConfiguration_start_def host_update\<close>)

lemma host_reachable:
  "\<exists>l. host (run evs (constructor opts)) = (Some 1, l, True, True) \<and> set l \<subseteq> {1}"
proof (induction evs rule: rev_induct)
  case Nil
  show ?case
    by (simp add: run_def constructor_fields)
next
  case (snoc ev evs)
  then obtain l where
    l: "host (run evs (constructor opts)) = (Some 1, l, True, True)" "set l \<subseteq> {1}"
    by blast
  show ?case
  proof (cases "ev = Destroy")
    case True
    have "host (destroy (run evs (constructor opts))) = (Some 1, removeAll 1 l, True, True)"
      using l(1) by (simp add: host_def destroy_def)
    then show ?thesis
      using l(2) True by (auto simp: run_def)
  next
    case False
    then show ?thesis
      using l host_step [OF False, of "run evs (constructor opts)"] by (simp add: run_def)
  qed
qed

lemma no_timer_after_destroy:
  assumes "Destroy \<in> set evs"
  shows "host_intervals (run evs (constructor opts)) = []"
  using assms
proof (induction evs rule: rev_induct)
  case Nil
  then show ?case
    by simp
next
  case (snoc ev evs)
  show ?case
  proof (cases "ev = Destroy")
    case True
    from host_reachable [of evs opts] obtain l where
      l: "host (run evs (constructor opts)) = (Some 1, l, True, True)" "set l \<subseteq> {1}"
      by blast
    have "removeAll 1 l = []"
      using l(2) by (induction l) auto
    then show ?thesis
      using l(1) True by (simp add: run_def host_def destroy_def)
  next
    case False
    with snoc have "host_intervals (run evs (constructor opts)) = []"
      by simp
    moreover have "host (run (evs @ [ev]) (constructor opts)) = host (run evs (constructor opts))"
      using host_step [OF False] by (simp add: run_def)
    ultimately show ?thesis
      by (simp add: host_def)
  qed
qed

text \<open>
  C7, as the code has it. Once \<^verbatim>\<open>destroy\<close> has run, at any point of any history of the
  chatbot, no interval timer is running and a tick of the repeating timer starts no poll
  and changes nothing.
\<close>

theorem destroy_stops_timer:
  "Destroy \<in> set evs \<Longrightarrow>
     host_intervals (run evs (constructor opts)) = [] \<and>
     step (Tick i) (run evs (constructor opts)) = run evs (constructor opts)"
  using no_timer_after_destroy [of evs opts] by simp

theorem destroy_stops_timer_witness:
  "Destroy \<in> set [Tick 1, Destroy, Focus] \<and>
   step (Tick 1) (run [Tick 1, Destroy, Focus] (constructor default_options)) =
   run [Tick 1, Destroy, Focus] (constructor default_options)"
proof -
  have h: "Destroy \<in> set [Tick 1, Destroy, Focus]"
    by simp
  from destroy_stops_timer [OF h, of default_options 1] h show ?thesis
    by blast
qed

text \<open>
  C7, as stated, fails. After \<^verbatim>\<open>destroy\<close> a focus event starts a poll, and its answer
  replaces the absent baseline and sets the current file id, the input and the messages;
  so does the answer to a poll that the timer started before \<^verbatim>\<open>destroy\<close>.
\<close>

theorem destroy_poll_applied_counterexample:
  "sdkConfig (run [Destroy] (constructor default_options)) = None \<and>
   sdkConfig
     (run [Destroy, Focus,
           PollDone (Body True (Some \<lparr>selectedWebsite =
                                        Some \<lparr>id' = ''b'', url = None, displayName = None,
                                              fileName = None\<rparr>,
                                      availableWebsites = Some [],
                                      integration = Some \<lparr>themeChoice = Some ''default'',
                                                          customizations = None\<rparr>,
                                      themeData = None\<rparr>))]
        (constructor default_options)) \<noteq> None \<and>
   currentFileId
     (run [Destroy, Focus,
           PollDone (Body True (Some \<lparr>selectedWebsite =
                                        Some \<lparr>id' = ''b'', url = None, displayName = None,
                                              fileName = None\<rparr>,
                                      availableWebsites = Some [],
                                      integration = Some \<lparr>themeChoice = Some ''default'',
                                                          customizations = None\<rparr>,
                                      themeData = None\<rparr>))]
        (constructor default_options)) = Some ''b'' \<and>
   currentFileId
     (run [Tick 1, Destroy,
           PollDone (Body True (Some \<lparr>selectedWebsite =
                                        Some \<lparr>id' = ''b'', url = None, displayName = None,
                                              fileName = None\<rparr>,
                                      availableWebsites = Some [],
                                      integration = Some \<lparr>themeChoice = Some ''default'',
                                                          customizations = None\<rparr>,
                                      themeData = None\<rparr>))]
        (constructor default_options)) = Some ''b''"
  by code_simp

end
